theory Spec2Isabelle
  imports Complex_Main "HOL-Library.Word" "HOL-Library.Signed_Division" "HOL-Library.FSet"
begin

section \<open>Storage miner actor: monies and the methods that charge them\<close>

text \<open>
  A shallow embedding of \<^verbatim>\<open>actors/builtin/miner/monies.go\<close> and of the methods of
  \<^verbatim>\<open>actors/builtin/miner/miner_actor.go\<close> that compute and charge fees.

  Conventions.
  \<^item> \<^verbatim>\<open>abi.ChainEpoch\<close> is Go's \<^verbatim>\<open>int64\<close>: a 64-bit word, read with \<open>sint\<close> and compared
    with the signed order; \<open>+\<close>, \<open>-\<close> and \<open>*\<close> wrap as in Go.
  \<^item> \<^verbatim>\<open>abi.TokenAmount\<close> and \<^verbatim>\<open>abi.StoragePower\<close> are \<^verbatim>\<open>big.Int\<close>: unbounded, \<open>int\<close>.
  \<^item> A Go panic and an \<^verbatim>\<open>rt.Abortf\<close> are values: \<open>None\<close> for the pure functions of
    monies.go, \<open>Inl code\<close> for actor methods.
  \<^item> Packages the two files import but do not contain (\<^verbatim>\<open>smoothing\<close>, \<^verbatim>\<open>builtin\<close>, the
    miner state and deadline types, the runtime) enter as parameters.
\<close>

subsection \<open>Integers\<close>

type_synonym ChainEpoch = "64 word"
type_synonym TokenAmount = int
type_synonym StoragePower = int

text \<open>\<^verbatim>\<open>big.Rsh\<close> is \<^verbatim>\<open>math/big\<close>'s arithmetic shift: it rounds towards minus infinity.\<close>

definition big_Rsh :: "int \<Rightarrow> nat \<Rightarrow> int" where
  "big_Rsh a n = a div 2 ^ n"

text \<open>
  \<^verbatim>\<open>big.Div\<close> is \<^verbatim>\<open>math/big\<close>'s \<^verbatim>\<open>Div\<close>: Euclidean division (the remainder is never
  negative), and a run-time panic when the divisor is zero.
\<close>

definition big_Div :: "int \<Rightarrow> int \<Rightarrow> int option" where
  "big_Div a b = (if b = 0 then None else Some (sgn b * (a div \<bar>b\<bar>)))"

definition minEpoch :: "ChainEpoch \<Rightarrow> ChainEpoch \<Rightarrow> ChainEpoch" where
  "minEpoch a b = (if a <s b then a else b)"

definition maxEpoch :: "ChainEpoch \<Rightarrow> ChainEpoch \<Rightarrow> ChainEpoch" where
  "maxEpoch a b = (if b <s a then a else b)"

subsection \<open>Parameters from packages outside the two files\<close>

text \<open>
  \<^verbatim>\<open>smoothing.FilterEstimate\<close>: the estimate type \<open>'fe\<close> is opaque; the two functions of
  the package that monies.go calls are the fields of this record.
\<close>

record 'fe smoothing =
  Estimate :: "'fe \<Rightarrow> int"
  ExtrapolatedCumSumOfRatio :: "ChainEpoch \<Rightarrow> ChainEpoch \<Rightarrow> 'fe \<Rightarrow> 'fe \<Rightarrow> int"

text \<open>
  Modelled from the spec: \<^verbatim>\<open>math.Precision\<close> (package \<^verbatim>\<open>actors/util/math\<close>), the number of
  fractional bits of the fixed-point representation, "a 128-bit fractional
  representation".
\<close>

definition Precision :: nat where
  "Precision = 128"

subsection \<open>monies.go: constants\<close>



definition InitialPledgeFactor :: int where
  "InitialPledgeFactor = 20"

definition InitialPledgeProjectionPeriod :: "int \<Rightarrow> ChainEpoch" where
  "InitialPledgeProjectionPeriod eid = word_of_int InitialPledgeFactor * word_of_int eid"

record BigFrac =
  numerator :: int
  denominator :: int

definition InitialPledgeLockTarget :: BigFrac where
  "InitialPledgeLockTarget = \<lparr>numerator = 3, denominator = 10\<rparr>"

definition DeclaredFaultFactorNum :: int where
  "DeclaredFaultFactorNum = 214"

definition DeclaredFaultFactorDenom :: int where
  "DeclaredFaultFactorDenom = 100"

text \<open>
  \<^verbatim>\<open>(builtin.EpochsInDay * DeclaredFaultFactorNum) / DeclaredFaultFactorDenom\<close> is computed
  on Go's \<^verbatim>\<open>int\<close> (64 bits): the product wraps and the division truncates towards zero.
\<close>

definition DeclaredFaultProjectionPeriod :: "int \<Rightarrow> ChainEpoch" where
  "DeclaredFaultProjectionPeriod eid =
     word_of_int (sint (word_of_int eid * word_of_int DeclaredFaultFactorNum :: 64 word)
                  sdiv DeclaredFaultFactorDenom)"

definition UndeclaredFaultProjectionPeriod :: "int \<Rightarrow> ChainEpoch" where
  "UndeclaredFaultProjectionPeriod eid = 5 * word_of_int eid"

definition TerminationLifetimeCap :: ChainEpoch where
  "TerminationLifetimeCap = 70"

subsection \<open>monies.go: functions\<close>

definition ExpectedRewardForPower ::
  "'fe smoothing \<Rightarrow> 'fe \<Rightarrow> 'fe \<Rightarrow> StoragePower \<Rightarrow> ChainEpoch \<Rightarrow> TokenAmount" where
  "ExpectedRewardForPower sm rewardEstimate networkQAPowerEstimate qaSectorPower projectionDuration =
     (let networkQAPowerSmoothed = Estimate sm networkQAPowerEstimate in
      if networkQAPowerSmoothed = 0 then Estimate sm rewardEstimate
      else
        let expectedRewardForProvingPeriod =
              ExtrapolatedCumSumOfRatio sm projectionDuration 0 rewardEstimate networkQAPowerEstimate;
            br128 = qaSectorPower * expectedRewardForProvingPeriod;
            br = big_Rsh br128 Precision
        in max br 0)"

definition PledgePenaltyForDeclaredFault ::
  "'fe smoothing \<Rightarrow> int \<Rightarrow> 'fe \<Rightarrow> 'fe \<Rightarrow> StoragePower \<Rightarrow> TokenAmount" where
  "PledgePenaltyForDeclaredFault sm eid rewardEstimate networkQAPowerEstimate qaSectorPower =
     ExpectedRewardForPower sm rewardEstimate networkQAPowerEstimate qaSectorPower
       (DeclaredFaultProjectionPeriod eid)"

definition PledgePenaltyForUndeclaredFault ::
  "'fe smoothing \<Rightarrow> int \<Rightarrow> 'fe \<Rightarrow> 'fe \<Rightarrow> StoragePower \<Rightarrow> TokenAmount" where
  "PledgePenaltyForUndeclaredFault sm eid rewardEstimate networkQAPowerEstimate qaSectorPower =
     ExpectedRewardForPower sm rewardEstimate networkQAPowerEstimate qaSectorPower
       (UndeclaredFaultProjectionPeriod eid)"

text \<open>
  The divisor \<^verbatim>\<open>big.NewInt(builtin.EpochsInDay)\<close> makes the function panic when the
  constant is zero: hence the \<open>option\<close>.
\<close>

definition PledgePenaltyForTermination ::
  "'fe smoothing \<Rightarrow> int \<Rightarrow> TokenAmount \<Rightarrow> ChainEpoch \<Rightarrow> TokenAmount \<Rightarrow> 'fe \<Rightarrow> StoragePower
     \<Rightarrow> 'fe \<Rightarrow> TokenAmount \<Rightarrow> ChainEpoch \<Rightarrow> TokenAmount option" where
  "PledgePenaltyForTermination sm eid dayReward sectorAge twentyDayRewardAtActivation
       networkQAPowerEstimate qaSectorPower rewardEstimate replacedDayReward replacedSectorAge =
     (let lifetimeCap = TerminationLifetimeCap * word_of_int eid;
          cappedSectorAge = minEpoch sectorAge lifetimeCap;
          expectedReward = dayReward * sint cappedSectorAge;
          relevantReplacedAge = minEpoch replacedSectorAge (lifetimeCap - cappedSectorAge);
          expectedReward' = expectedReward + replacedDayReward * sint relevantReplacedAge
      in case big_Div expectedReward' eid of
           None \<Rightarrow> None
         | Some perDay \<Rightarrow>
             Some (max (PledgePenaltyForUndeclaredFault sm eid rewardEstimate networkQAPowerEstimate
                          qaSectorPower)
                       (twentyDayRewardAtActivation + perDay)))"


text \<open>The last \<^verbatim>\<open>big.Div\<close> panics when the pledge-share denominator is zero.\<close>

definition InitialPledgeForPower ::
  "'fe smoothing \<Rightarrow> int \<Rightarrow> StoragePower \<Rightarrow> StoragePower \<Rightarrow> 'fe \<Rightarrow> 'fe \<Rightarrow> TokenAmount
     \<Rightarrow> TokenAmount option" where
  "InitialPledgeForPower sm eid qaPower baselinePower rewardEstimate networkQAPowerEstimate
       circulatingSupply =
     (let ipBase = ExpectedRewardForPower sm rewardEstimate networkQAPowerEstimate qaPower
                     (InitialPledgeProjectionPeriod eid);
          lockTargetNum = numerator InitialPledgeLockTarget * circulatingSupply;
          lockTargetDenom = denominator InitialPledgeLockTarget;
          pledgeShareNum = qaPower;
          networkQAPower = Estimate sm networkQAPowerEstimate;
          pledgeShareDenom = max (max networkQAPower baselinePower) qaPower;
          additionalIPNum = lockTargetNum * pledgeShareNum;
          additionalIPDenom = lockTargetDenom * pledgeShareDenom
      in case big_Div additionalIPNum additionalIPDenom of
           None \<Rightarrow> None
         | Some additionalIP \<Rightarrow> Some (ipBase + additionalIP))"


subsection \<open>Exit codes, errors, bit fields\<close>

datatype exitcode =
    Ok
  | ErrIllegalArgument
  | ErrNotFound
  | ErrForbidden
  | ErrInsufficientFunds
  | ErrIllegalState
  | ErrSerialization
  | ActorPanic
  | ErrOther nat

text \<open>
  Sequencing: the rest of a method runs on the value of a step that did not abort.
  \<open>Assert\<close> is \<^verbatim>\<open>util.Assert\<close>, a Go panic when the condition is false.
\<close>

definition andThen :: "exitcode + 'a \<Rightarrow> ('a \<Rightarrow> exitcode + 'b) \<Rightarrow> exitcode + 'b" where
  "andThen r k = (case r of Inl code \<Rightarrow> Inl code | Inr x \<Rightarrow> k x)"

definition Assert :: "bool \<Rightarrow> exitcode + 'a \<Rightarrow> exitcode + 'a" where
  "Assert ok k = (if ok then k else Inl ActorPanic)"

text \<open>
  A Go \<^verbatim>\<open>error\<close> returned by a function outside the two files: it may wrap an exit
  code, which \<^verbatim>\<open>exitcode.Unwrap\<close> reads.
\<close>

type_synonym go_error = "exitcode option"

definition Unwrap :: "go_error \<Rightarrow> exitcode \<Rightarrow> exitcode" where
  "Unwrap err defaultExitCode = (case err of Some c \<Rightarrow> c | None \<Rightarrow> defaultExitCode)"

text \<open>
  \<^verbatim>\<open>builtin.RequireNoErr(rt, err, code, msg)\<close> aborts when \<open>err\<close> is not nil, with the exit
  code the error wraps, or with \<open>code\<close> when it wraps none (the tests of miner_test.go
  expect the wrapped code); the continuation gets the value otherwise.
\<close>

definition RequireNoErr :: "go_error + 'a \<Rightarrow> exitcode \<Rightarrow> ('a \<Rightarrow> exitcode + 'b) \<Rightarrow> exitcode + 'b" where
  "RequireNoErr r code k = (case r of Inl err \<Rightarrow> Inl (Unwrap err code) | Inr x \<Rightarrow> k x)"

text \<open>
  The statement \<^verbatim>\<open>if err != nil { rt.Abortf(code, ...) }\<close>: the abort is with \<open>code\<close>,
  whatever the error wraps.
\<close>

definition AbortfOnErr :: "go_error + 'a \<Rightarrow> exitcode \<Rightarrow> ('a \<Rightarrow> exitcode + 'b) \<Rightarrow> exitcode + 'b" where
  "AbortfOnErr r code k = (case r of Inl err \<Rightarrow> Inl code | Inr x \<Rightarrow> k x)"

text \<open>
  \<^verbatim>\<open>bitfield.BitField\<close> (go-bitfield): a finite set of indices, or a run-length encoding
  that does not decode, on which \<^verbatim>\<open>Count\<close> and \<^verbatim>\<open>IsEmpty\<close> return an error.
\<close>

datatype BitField = BitField "nat fset" | Undecodable

definition bf_Count :: "BitField \<Rightarrow> go_error + nat" where
  "bf_Count b = (case b of BitField s \<Rightarrow> Inr (fcard s) | Undecodable \<Rightarrow> Inl None)"

definition bf_IsEmpty :: "BitField \<Rightarrow> go_error + bool" where
  "bf_IsEmpty b = (case b of BitField s \<Rightarrow> Inr (s = {||}) | Undecodable \<Rightarrow> Inl None)"

definition bf_Set :: "BitField \<Rightarrow> nat \<Rightarrow> BitField" where
  "bf_Set b i = (case b of BitField s \<Rightarrow> BitField (finsert i s) | Undecodable \<Rightarrow> Undecodable)"

subsection \<open>Messages and the runtime\<close>

datatype Address =
    BurntFundsActorAddr
  | StoragePowerActorAddr
  | StorageMarketActorAddr
  | RewardActorAddr
  | IDAddress nat

datatype CronEventType =
    CronEventWorkerKeyChange
  | CronEventProvingDeadline
  | CronEventProcessEarlyTerminations

record CronEventPayload =
  EventType :: CronEventType

type_synonym DealID = nat

text \<open>The method number of a message together with its parameters, for the sends made below.\<close>

datatype method_params =
    MethodSend
  | EnrollCronEvent ChainEpoch CronEventPayload
  | UpdateClaimedPower StoragePower StoragePower
  | UpdatePledgeTotal TokenAmount
  | OnMinerSectorsTerminate ChainEpoch "DealID list"

record msg =
  To :: Address
  MethodParams :: method_params
  ValueSent :: TokenAmount

record 'fe ThisEpochRewardReturn =
  ThisEpochRewardSmoothed :: 'fe
  ThisEpochBaselinePower :: StoragePower

record 'fe CurrentTotalPowerReturn =
  QualityAdjPowerSmoothed :: 'fe

type_synonym Randomness = "8 word list"
type_synonym RegisteredSealProof = int
type_synonym RegisteredPoStProof = int
type_synonym SectorSize = nat
type_synonym SectorNumber = nat

type_synonym ActorID = nat

datatype cid = CidUndef | Cid nat nat

datatype DomainSeparationTag =
    DomainSeparationTag_PoStChainCommit
  | DomainSeparationTag_WindowedPoStChallengeSeed

record PoStProof =
  PoStProof :: RegisteredPoStProof
  ProofBytes :: "8 word list"

record SectorInfo =
  SealProof :: RegisteredSealProof
  SectorNumber :: SectorNumber
  SealedCID :: cid

record WindowPoStVerifyInfo =
  Randomness :: Randomness
  Proofs :: "PoStProof list"
  ChallengedSectors :: "SectorInfo list"
  Prover :: ActorID

text \<open>
  What \<^verbatim>\<open>vmr.Runtime\<close> answers during one message. \<open>CurrentBalance\<close> and \<open>SendCode\<close> take
  the messages sent so far: a send that carries value changes the balance. The two
  queries to the reward and power actors are \<open>Inl\<close> with the code the caller aborts
  with (the callee's exit code, or \<open>ErrSerialization\<close> for a reply that does not
  unmarshal). \<open>IDFromAddress\<close> and \<open>MarshalCBOR\<close> are the functions of go-address the
  actor applies to its own address; \<open>VerifyPoSt\<close> is the syscall, \<open>True\<close> when it returns
  no error.
\<close>

record 'fe Runtime =
  CurrEpoch :: ChainEpoch
  Caller :: Address
  CurrentBalance :: "msg list \<Rightarrow> TokenAmount"
  SendCode :: "msg list \<Rightarrow> msg \<Rightarrow> exitcode"
  ThisEpochReward :: "exitcode + 'fe ThisEpochRewardReturn"
  CurrentTotalPower :: "exitcode + 'fe CurrentTotalPowerReturn"
  GetRandomnessFromTickets :: "DomainSeparationTag \<Rightarrow> ChainEpoch \<Rightarrow> 8 word list \<Rightarrow> Randomness"
  GetRandomnessFromBeacon :: "DomainSeparationTag \<Rightarrow> ChainEpoch \<Rightarrow> 8 word list \<Rightarrow> Randomness"
  Receiver :: Address
  IDFromAddress :: "Address \<Rightarrow> go_error + ActorID"
  MarshalCBOR :: "Address \<Rightarrow> go_error + 8 word list"
  VerifyPoSt :: "WindowPoStVerifyInfo \<Rightarrow> bool"

text \<open>\<^verbatim>\<open>rt.Send\<close> followed by \<^verbatim>\<open>builtin.RequireSuccess\<close>: abort with the callee's code.\<close>

definition SendRequireSuccess ::
  "('fe, 'r) Runtime_scheme \<Rightarrow> msg \<Rightarrow> msg list \<Rightarrow> exitcode + msg list" where
  "SendRequireSuccess rt m sent =
     (let code = SendCode rt sent m in
      if code = Ok then Inr (sent @ [m]) else Inl code)"

text \<open>
  \<^verbatim>\<open>rt.ValidateImmediateCallerIs\<close>: the tests of the actor expect \<^verbatim>\<open>ErrForbidden\<close> from a
  caller outside the list.
\<close>

definition ValidateImmediateCallerIs ::
  "('fe, 'r) Runtime_scheme \<Rightarrow> Address list \<Rightarrow> (exitcode + 'a) \<Rightarrow> exitcode + 'a" where
  "ValidateImmediateCallerIs rt addrs k =
     (if Caller rt \<in> set addrs then k else Inl ErrForbidden)"

definition requestCurrentEpochBlockReward ::
  "('fe, 'r) Runtime_scheme \<Rightarrow> exitcode + 'fe ThisEpochRewardReturn" where
  "requestCurrentEpochBlockReward rt = ThisEpochReward rt"

definition requestCurrentTotalPower ::
  "('fe, 'r) Runtime_scheme \<Rightarrow> exitcode + 'fe CurrentTotalPowerReturn" where
  "requestCurrentTotalPower rt = CurrentTotalPower rt"

definition burnFunds :: "('fe, 'r) Runtime_scheme \<Rightarrow> TokenAmount \<Rightarrow> msg list \<Rightarrow> exitcode + msg list" where
  "burnFunds rt amt sent =
     (if 0 < amt
      then SendRequireSuccess rt \<lparr>To = BurntFundsActorAddr, MethodParams = MethodSend, ValueSent = amt\<rparr> sent
      else Inr sent)"

definition notifyPledgeChanged ::
  "('fe, 'r) Runtime_scheme \<Rightarrow> TokenAmount \<Rightarrow> msg list \<Rightarrow> exitcode + msg list" where
  "notifyPledgeChanged rt pledgeDelta sent =
     (if pledgeDelta \<noteq> 0
      then SendRequireSuccess rt
             \<lparr>To = StoragePowerActorAddr, MethodParams = UpdatePledgeTotal pledgeDelta, ValueSent = 0\<rparr> sent
      else Inr sent)"

text \<open>
  \<^verbatim>\<open>enrollCronEvent\<close>: the payload of the model always marshals, so the abort on a
  serialisation error has no branch here.
\<close>

definition enrollCronEvent ::
  "('fe, 'r) Runtime_scheme \<Rightarrow> ChainEpoch \<Rightarrow> CronEventPayload \<Rightarrow> msg list \<Rightarrow> exitcode + msg list" where
  "enrollCronEvent rt eventEpoch callbackPayload sent =
     SendRequireSuccess rt
       \<lparr>To = StoragePowerActorAddr, MethodParams = EnrollCronEvent eventEpoch callbackPayload, ValueSent = 0\<rparr>
       sent"

definition scheduleEarlyTerminationWork ::
  "('fe, 'r) Runtime_scheme \<Rightarrow> msg list \<Rightarrow> exitcode + msg list" where
  "scheduleEarlyTerminationWork rt sent =
     enrollCronEvent rt (CurrEpoch rt + 1) \<lparr>EventType = CronEventProcessEarlyTerminations\<rparr> sent"

subsection \<open>Miner state\<close>

record MinerInfo =
  Owner :: Address
  Worker :: Address
  ControlAddresses :: "Address list"
  SealProofType :: RegisteredSealProof
  SectorSize :: SectorSize
  WindowPoStPartitionSectors :: nat

text \<open>
  The state record: the field the methods read directly, and the rest of
  \<^verbatim>\<open>miner.State\<close> in the extension \<open>'z\<close>.
\<close>

record State =
  EarlyTerminations :: BitField

text \<open>
  The methods of \<^verbatim>\<open>miner.State\<close> that deal with funds (state.go is outside the two
  files). A method that mutates the state returns the new state; \<open>Inl\<close> is its Go
  error. \<open>AssertBalanceInvariants\<close> is \<open>False\<close> where the Go assertion panics.
\<close>

record 'z FundsOps =
  GetInfo :: "'z State_scheme \<Rightarrow> go_error + MinerInfo"
  UnlockVestedFunds :: "'z State_scheme \<Rightarrow> ChainEpoch \<Rightarrow> go_error + (TokenAmount \<times> 'z State_scheme)"
  GetAvailableBalance :: "'z State_scheme \<Rightarrow> TokenAmount \<Rightarrow> TokenAmount"
  GetUnlockedBalance :: "'z State_scheme \<Rightarrow> TokenAmount \<Rightarrow> TokenAmount"
  RepayDebt :: "'z State_scheme \<Rightarrow> TokenAmount \<Rightarrow> go_error + (TokenAmount \<times> 'z State_scheme)"
  MeetsInitialPledgeCondition :: "'z State_scheme \<Rightarrow> TokenAmount \<Rightarrow> bool"
  AssertBalanceInvariants :: "'z State_scheme \<Rightarrow> TokenAmount \<Rightarrow> bool"
  PenalizeFundsInPriorityOrder ::
    "'z State_scheme \<Rightarrow> ChainEpoch \<Rightarrow> TokenAmount \<Rightarrow> TokenAmount
       \<Rightarrow> go_error + (TokenAmount \<times> TokenAmount \<times> 'z State_scheme)"

definition getMinerInfo :: "('z, 'f) FundsOps_scheme \<Rightarrow> 'z State_scheme \<Rightarrow> exitcode + MinerInfo" where
  "getMinerInfo ops st = RequireNoErr (GetInfo ops st) ErrIllegalState Inr"

definition havePendingEarlyTerminations :: "'z State_scheme \<Rightarrow> exitcode + bool" where
  "havePendingEarlyTerminations st =
     RequireNoErr (bf_IsEmpty (EarlyTerminations st)) ErrIllegalState
       (\<lambda>noEarlyTerminations. Inr (\<not> noEarlyTerminations))"

text \<open>monies.go, \<^verbatim>\<open>VerifyPledgeRequirementsAndRepayDebts\<close>: the amount to burn and the state.\<close>

definition VerifyPledgeRequirementsAndRepayDebts ::
  "('z, 'f) FundsOps_scheme \<Rightarrow> TokenAmount \<Rightarrow> 'z State_scheme
     \<Rightarrow> exitcode + (TokenAmount \<times> 'z State_scheme)" where
  "VerifyPledgeRequirementsAndRepayDebts ops currBalance st =
     (case RepayDebt ops st currBalance of
        Inl err \<Rightarrow> Inl (Unwrap err ErrIllegalState)
      | Inr (toBurn, st') \<Rightarrow>
          (let currBalance' = currBalance - toBurn in
           if \<not> MeetsInitialPledgeCondition ops st' currBalance' then Inl ErrInsufficientFunds
           else Inr (toBurn, st')))"

text \<open>What a method leaves behind when it returns: the committed state and the messages sent.\<close>

record 'z outcome =
  state :: "'z State_scheme"
  messages :: "msg list"

text \<open>
  Modelled from the spec: the runtime's handling of an abort, "any error aborts the
  entire message with no state change". The state after a message is the committed one
  when the method returns and the one before the message when it aborts.
\<close>

definition persisted :: "'z State_scheme \<Rightarrow> exitcode + ('z, 'o) outcome_scheme \<Rightarrow> 'z State_scheme" where
  "persisted st r = (case r of Inl code \<Rightarrow> st | Inr out \<Rightarrow> state out)"

subsection \<open>WithdrawBalance\<close>

record WithdrawBalanceParams =
  AmountRequested :: TokenAmount

text \<open>The body of the transaction: what it hands to the code after it, and the state.\<close>

definition WithdrawBalance_transaction ::
  "('z, 'f) FundsOps_scheme \<Rightarrow> ('fe, 'r) Runtime_scheme \<Rightarrow> 'z State_scheme
     \<Rightarrow> exitcode + (MinerInfo \<times> TokenAmount \<times> TokenAmount \<times> TokenAmount \<times> 'z State_scheme)" where
  "WithdrawBalance_transaction ops rt st =
     andThen (getMinerInfo ops st) (\<lambda>info.
     ValidateImmediateCallerIs rt [Owner info]
      (case bf_Count (EarlyTerminations st) of
         Inl err \<Rightarrow> Inl (Unwrap err ErrIllegalState)
       | Inr count \<Rightarrow>
           if 0 < count then Inl ErrForbidden
           else
             AbortfOnErr (UnlockVestedFunds ops st (CurrEpoch rt)) ErrIllegalState
               (\<lambda>(newlyVested, st1).
             let availableBalance = GetAvailableBalance ops st1 (CurrentBalance rt []) in
             andThen (VerifyPledgeRequirementsAndRepayDebts ops (CurrentBalance rt []) st1)
               (\<lambda>(feeToBurn, st2).
             Inr (info, newlyVested, feeToBurn, availableBalance, st2)))))"

definition WithdrawBalance ::
  "('z, 'f) FundsOps_scheme \<Rightarrow> ('fe, 'r) Runtime_scheme \<Rightarrow> 'z State_scheme \<Rightarrow> WithdrawBalanceParams
     \<Rightarrow> exitcode + 'z outcome" where
  "WithdrawBalance ops rt st params =
     (if AmountRequested params < 0 then Inl ErrIllegalArgument
      else
        andThen (WithdrawBalance_transaction ops rt st)
          (\<lambda>(info, newlyVested, feeToBurn, availableBalance, st').
        let amountWithdrawn = min availableBalance (AmountRequested params) in
        Assert (0 \<le> amountWithdrawn)
         (Assert (amountWithdrawn \<le> availableBalance)
           (andThen (if 0 < amountWithdrawn
                     then SendRequireSuccess rt
                            \<lparr>To = Owner info, MethodParams = MethodSend,
                             ValueSent = amountWithdrawn\<rparr> []
                     else Inr []) (\<lambda>sent1.
            andThen (burnFunds rt feeToBurn sent1) (\<lambda>sent2.
            let pledgeDelta = - newlyVested in
            andThen (notifyPledgeChanged rt pledgeDelta sent2) (\<lambda>sent3.
            Assert (AssertBalanceInvariants ops st' (CurrentBalance rt sent3))
              (Inr \<lparr>state = st', messages = sent3\<rparr>))))))))"

subsection \<open>Sectors, deadlines and policy\<close>

text \<open>
  Modelled from the spec: \<^verbatim>\<open>miner.PowerPair\<close>, "Raw+QA pairs", with the componentwise sum
  and difference; a pair is zero when both components are.
\<close>

record PowerPair =
  Raw :: StoragePower
  QA :: StoragePower

definition NewPowerPairZero :: PowerPair where
  "NewPowerPairZero = \<lparr>Raw = 0, QA = 0\<rparr>"

definition PowerPair_Add :: "PowerPair \<Rightarrow> PowerPair \<Rightarrow> PowerPair" where
  "PowerPair_Add p q = \<lparr>Raw = Raw p + Raw q, QA = QA p + QA q\<rparr>"

definition PowerPair_Sub :: "PowerPair \<Rightarrow> PowerPair \<Rightarrow> PowerPair" where
  "PowerPair_Sub p q = \<lparr>Raw = Raw p - Raw q, QA = QA p - QA q\<rparr>"

definition PowerPair_IsZero :: "PowerPair \<Rightarrow> bool" where
  "PowerPair_IsZero p \<longleftrightarrow> Raw p = 0 \<and> QA p = 0"

record SectorOnChainInfo = SectorInfo +
  DealIDs :: "DealID list"
  Activation :: ChainEpoch
  Expiration :: ChainEpoch
  InitialPledge :: TokenAmount
  ExpectedDayReward :: TokenAmount
  ExpectedStoragePledge :: TokenAmount
  ReplacedSectorAge :: ChainEpoch
  ReplacedDayReward :: TokenAmount

text \<open>
  The index of a \<^verbatim>\<open>PoStPartition\<close> is \<open>PartitionIndex\<close> here (\<open>Index\<close> is the deadline's),
  and the \<^verbatim>\<open>Proofs\<close> of the parameters are \<open>SubmittedProofs\<close> (\<open>Proofs\<close> is the field of the
  verifier's input).
\<close>

record PoStPartition =
  PartitionIndex :: nat
  Skipped :: BitField

record SubmitWindowedPoStParams =
  Deadline :: nat
  Partitions :: "PoStPartition list"
  SubmittedProofs :: "PoStProof list"
  ChainCommitRand :: Randomness

text \<open>
  Modelled from the spec: \<^verbatim>\<open>miner.PoStResult\<close>, "\<open>{sectors, ignored_sectors, power_delta,
  new_fault_power, retracted_recovery_power, recovered_power}\<close>", and its method
  \<^verbatim>\<open>PenaltyPower\<close>, the power charged as undeclared faults: "\<open>new_fault_power +
  retracted_recovery_power\<close>".
\<close>

record PoStResult =
  Sectors :: BitField
  IgnoredSectors :: BitField
  PowerDelta :: PowerPair
  NewFaultyPower :: PowerPair
  RetractedRecoveryPower :: PowerPair
  RecoveredPower :: PowerPair

definition PenaltyPower :: "PoStResult \<Rightarrow> PowerPair" where
  "PenaltyPower p = PowerPair_Add (NewFaultyPower p) (RetractedRecoveryPower p)"

text \<open>
  Modelled from the spec: a quantization spec, "\<open>{unit, offset}\<close> over epochs". The
  methods only pass it on.
\<close>

record QuantSpec =
  quant_unit :: ChainEpoch
  quant_offset :: ChainEpoch

text \<open>\<^verbatim>\<open>miner.DeadlineInfo\<close>: the fields the methods read.\<close>

record DeadlineInfo =
  PeriodStart :: ChainEpoch
  Index :: nat
  Challenge :: ChainEpoch

text \<open>
  Constants and functions of policy.go, of \<^verbatim>\<open>abi\<close> and of \<^verbatim>\<open>builtin\<close> (outside the two
  files).
\<close>

record Policy =
  EpochsInDay :: int
  WPoStPeriodDeadlines :: nat
  FaultMaxAge :: ChainEpoch
  RegisteredWindowPoStProof :: "RegisteredSealProof \<Rightarrow> go_error + RegisteredPoStProof"
  loadPartitionsSectorsMax :: "nat \<Rightarrow> nat"
  AddressedPartitionsMax :: nat
  AddressedSectorsMax :: nat
  QAPowerForSector :: "SectorSize \<Rightarrow> SectorOnChainInfo \<Rightarrow> StoragePower"

text \<open>
  The methods of the state, of \<^verbatim>\<open>Deadlines\<close>, \<^verbatim>\<open>Deadline\<close>, \<^verbatim>\<open>Sectors\<close> and
  \<^verbatim>\<open>DeadlineInfo\<close> that \<^verbatim>\<open>SubmitWindowedPoSt\<close> calls; the types \<open>'dls\<close>, \<open>'dl\<close> and \<open>'secs\<close>
  of the loaded deadlines, of one deadline and of the sectors array are opaque. The
  block store the Go methods take is part of the state here.
\<close>

record ('z, 'dls, 'dl, 'secs) DeadlineOps = "'z FundsOps" +
  DeadlineInfo_of :: "'z State_scheme \<Rightarrow> ChainEpoch \<Rightarrow> DeadlineInfo"
  IsOpen :: "DeadlineInfo \<Rightarrow> bool"
  Last :: "DeadlineInfo \<Rightarrow> ChainEpoch"
  QuantSpec_of :: "DeadlineInfo \<Rightarrow> QuantSpec"
  LoadSectors :: "'z State_scheme \<Rightarrow> go_error + 'secs"
  LoadDeadlines :: "'z State_scheme \<Rightarrow> go_error + 'dls"
  LoadDeadline :: "'dls \<Rightarrow> nat \<Rightarrow> go_error + 'dl"
  RecordProvenSectors ::
    "'dl \<Rightarrow> 'secs \<Rightarrow> SectorSize \<Rightarrow> QuantSpec \<Rightarrow> ChainEpoch \<Rightarrow> PoStPartition list
       \<Rightarrow> go_error + (PoStResult \<times> 'dl)"
  LoadForProof :: "'secs \<Rightarrow> BitField \<Rightarrow> BitField \<Rightarrow> go_error + SectorOnChainInfo list"
  UpdateDeadline :: "'dls \<Rightarrow> nat \<Rightarrow> 'dl \<Rightarrow> go_error + 'dls"
  SaveDeadlines :: "'z State_scheme \<Rightarrow> 'dls \<Rightarrow> go_error + 'z State_scheme"

definition requestUpdatePower ::
  "('fe, 'r) Runtime_scheme \<Rightarrow> PowerPair \<Rightarrow> msg list \<Rightarrow> exitcode + msg list" where
  "requestUpdatePower rt delta sent =
     (if PowerPair_IsZero delta then Inr sent
      else SendRequireSuccess rt
             \<lparr>To = StoragePowerActorAddr, MethodParams = UpdateClaimedPower (Raw delta) (QA delta),
              ValueSent = 0\<rparr> sent)"

subsection \<open>SubmitWindowedPoSt\<close>

definition verifyWindowedPost ::
  "('fe, 'r) Runtime_scheme \<Rightarrow> ChainEpoch \<Rightarrow> SectorOnChainInfo list \<Rightarrow> PoStProof list
     \<Rightarrow> exitcode + unit" where
  "verifyWindowedPost rt challengeEpoch sectors proofs =
     (case IDFromAddress rt (Receiver rt) of
        Inl err \<Rightarrow> Inl ActorPanic
      | Inr minerActorID \<Rightarrow>
          (case MarshalCBOR rt (Receiver rt) of
             Inl err \<Rightarrow> Inl ActorPanic
           | Inr addrBuf \<Rightarrow>
               (let postRandomness =
                      GetRandomnessFromBeacon rt DomainSeparationTag_WindowedPoStChallengeSeed
                        challengeEpoch addrBuf;
                    sectorProofInfo =
                      map (\<lambda>s. \<lparr>SealProof = SealProof s, SectorNumber = SectorNumber s,
                                 SealedCID = SealedCID s\<rparr>) sectors;
                    pvInfo = \<lparr>Randomness = postRandomness, Proofs = proofs,
                              ChallengedSectors = sectorProofInfo, Prover = minerActorID\<rparr>
                in if \<not> VerifyPoSt rt pvInfo then Inl ErrIllegalArgument else Inr ())))"

text \<open>
  The transaction of \<^verbatim>\<open>SubmitWindowedPoSt\<close> in four parts. First the checks of the
  caller, the proofs, the partition count, the deadline and the randomness.
\<close>

definition SubmitWindowedPoSt_validate ::
  "Policy \<Rightarrow> ('z, 'dls, 'dl, 'secs, 'o) DeadlineOps_scheme \<Rightarrow> ('fe, 'r) Runtime_scheme
     \<Rightarrow> 'z State_scheme \<Rightarrow> SubmitWindowedPoStParams \<Rightarrow> exitcode + (MinerInfo \<times> DeadlineInfo)" where
  "SubmitWindowedPoSt_validate pol ops rt st params =
     andThen (getMinerInfo ops st) (\<lambda>info.
     ValidateImmediateCallerIs rt (ControlAddresses info @ [Owner info, Worker info])
      (RequireNoErr (RegisteredWindowPoStProof pol (SealProofType info)) ErrIllegalState
         (\<lambda>windowPoStProofType.
       if 1 < length (SubmittedProofs params) then Inl ErrIllegalArgument
       else if length (SubmittedProofs params) = 1
               \<and> PoStProof (SubmittedProofs params ! 0) \<noteq> windowPoStProofType
       then Inl ErrIllegalArgument
       else
         let submissionPartitionLimit =
               loadPartitionsSectorsMax pol (WindowPoStPartitionSectors info) in
         if submissionPartitionLimit < length (Partitions params) then Inl ErrIllegalArgument
         else
           let currDeadline = DeadlineInfo_of ops st (CurrEpoch rt) in
           if \<not> IsOpen ops currDeadline then Inl ErrIllegalState
           else if Deadline params \<noteq> Index currDeadline then Inl ErrIllegalArgument
           else
             let commRand = GetRandomnessFromTickets rt DomainSeparationTag_PoStChainCommit
                              (Challenge currDeadline) [] in
             if commRand \<noteq> ChainCommitRand params then Inl ErrIllegalArgument
             else Inr (info, currDeadline))))"

text \<open>Then the claimed partitions are recorded and the sectors to prove are loaded.\<close>

definition SubmitWindowedPoSt_record ::
  "Policy \<Rightarrow> ('z, 'dls, 'dl, 'secs, 'o) DeadlineOps_scheme \<Rightarrow> 'z State_scheme
     \<Rightarrow> SubmitWindowedPoStParams \<Rightarrow> MinerInfo \<Rightarrow> DeadlineInfo
     \<Rightarrow> exitcode + ('dls \<times> 'dl \<times> PoStResult \<times> SectorOnChainInfo list)" where
  "SubmitWindowedPoSt_record pol ops st params info currDeadline =
     RequireNoErr (LoadSectors ops st) ErrIllegalState (\<lambda>sectors.
     RequireNoErr (LoadDeadlines ops st) ErrIllegalState (\<lambda>deadlines.
     RequireNoErr (LoadDeadline ops deadlines (Deadline params)) ErrIllegalState (\<lambda>deadline.
     let faultExpiration = Last ops currDeadline + FaultMaxAge pol in
     RequireNoErr (RecordProvenSectors ops deadline sectors (SectorSize info)
                     (QuantSpec_of ops currDeadline) faultExpiration (Partitions params))
       ErrIllegalState (\<lambda>(postResult, deadline').
     RequireNoErr (LoadForProof ops sectors (Sectors postResult) (IgnoredSectors postResult))
       ErrIllegalState (\<lambda>sectorInfos.
     Inr (deadlines, deadline', postResult, sectorInfos))))))"

text \<open>Then the proof is verified, unless there is nothing to prove.\<close>

definition SubmitWindowedPoSt_verify ::
  "('fe, 'r) Runtime_scheme \<Rightarrow> SubmitWindowedPoStParams \<Rightarrow> DeadlineInfo \<Rightarrow> SectorOnChainInfo list
     \<Rightarrow> exitcode + unit" where
  "SubmitWindowedPoSt_verify rt params currDeadline sectorInfos =
     (if 0 < length sectorInfos
      then if length (SubmittedProofs params) = 0 then Inl ErrIllegalArgument
           else verifyWindowedPost rt (Challenge currDeadline) sectorInfos (SubmittedProofs params)
      else Inr ())"

text \<open>
  The whole transaction, ending with the penalty and the deadline saved. It returns the
  values it leaves in the variables of the method (\<open>postResult\<close>, \<open>penaltyTotal\<close>,
  \<open>pledgeDelta\<close>), the sectors that were to be proven and the penalty target given to
  \<^verbatim>\<open>PenalizeFundsInPriorityOrder\<close>, and the state.
\<close>

definition SubmitWindowedPoSt_transaction ::
  "Policy \<Rightarrow> 'fe smoothing \<Rightarrow> ('z, 'dls, 'dl, 'secs, 'o) DeadlineOps_scheme
     \<Rightarrow> ('fe, 'r) Runtime_scheme \<Rightarrow> 'z State_scheme \<Rightarrow> SubmitWindowedPoStParams
     \<Rightarrow> 'fe ThisEpochRewardReturn \<Rightarrow> 'fe CurrentTotalPowerReturn
     \<Rightarrow> exitcode + (PoStResult \<times> SectorOnChainInfo list \<times> TokenAmount \<times> TokenAmount \<times> TokenAmount
                     \<times> 'z State_scheme)" where
  "SubmitWindowedPoSt_transaction pol sm ops rt st params rewardStats pwrTotal =
     andThen (SubmitWindowedPoSt_validate pol ops rt st params) (\<lambda>(info, currDeadline).
     andThen (SubmitWindowedPoSt_record pol ops st params info currDeadline)
       (\<lambda>(deadlines, deadline, postResult, sectorInfos).
     andThen (SubmitWindowedPoSt_verify rt params currDeadline sectorInfos) (\<lambda>verified.
     let undeclaredPenaltyPower = PenaltyPower postResult;
         undeclaredPenaltyTarget =
           PledgePenaltyForUndeclaredFault sm (EpochsInDay pol) (ThisEpochRewardSmoothed rewardStats)
             (QualityAdjPowerSmoothed pwrTotal) (QA undeclaredPenaltyPower);
         undeclaredPenaltyTarget' =
           undeclaredPenaltyTarget
           - PledgePenaltyForDeclaredFault sm (EpochsInDay pol) (ThisEpochRewardSmoothed rewardStats)
               (QualityAdjPowerSmoothed pwrTotal) (QA undeclaredPenaltyPower);
         declaredPenaltyTarget =
           PledgePenaltyForDeclaredFault sm (EpochsInDay pol) (ThisEpochRewardSmoothed rewardStats)
             (QualityAdjPowerSmoothed pwrTotal) (QA (RecoveredPower postResult));
         totalPenaltyTarget = undeclaredPenaltyTarget' + declaredPenaltyTarget;
         unlockedBalance = GetUnlockedBalance ops st (CurrentBalance rt [])
     in RequireNoErr (PenalizeFundsInPriorityOrder ops st (CurrEpoch rt) totalPenaltyTarget
                        unlockedBalance) ErrIllegalState
          (\<lambda>(vestingPenaltyTotal, balancePenaltyTotal, st1).
        let penaltyTotal = vestingPenaltyTotal + balancePenaltyTotal;
            pledgeDelta = 0 - vestingPenaltyTotal in
        RequireNoErr (UpdateDeadline ops deadlines (Deadline params) deadline) ErrIllegalState
          (\<lambda>deadlines'.
        RequireNoErr (SaveDeadlines ops st1 deadlines') ErrIllegalState (\<lambda>st2.
        Inr (postResult, sectorInfos, totalPenaltyTarget, penaltyTotal, pledgeDelta, st2)))))))"

text \<open>
  What \<^verbatim>\<open>SubmitWindowedPoSt\<close> leaves behind: the state and the messages, with the result
  of recording the partitions, the sectors that were to be proven and the penalty
  target.
\<close>

record 'z PoSt_outcome = "'z outcome" +
  postResult :: PoStResult
  sectorInfos :: "SectorOnChainInfo list"
  totalPenaltyTarget :: TokenAmount

definition SubmitWindowedPoSt ::
  "Policy \<Rightarrow> 'fe smoothing \<Rightarrow> ('z, 'dls, 'dl, 'secs, 'o) DeadlineOps_scheme
     \<Rightarrow> ('fe, 'r) Runtime_scheme \<Rightarrow> 'z State_scheme \<Rightarrow> SubmitWindowedPoStParams
     \<Rightarrow> exitcode + 'z PoSt_outcome" where
  "SubmitWindowedPoSt pol sm ops rt st params =
     (if WPoStPeriodDeadlines pol \<le> Deadline params then Inl ErrIllegalArgument
      else
        andThen (requestCurrentEpochBlockReward rt) (\<lambda>rewardStats.
        andThen (requestCurrentTotalPower rt) (\<lambda>pwrTotal.
        andThen (SubmitWindowedPoSt_transaction pol sm ops rt st params rewardStats pwrTotal)
          (\<lambda>(postResult, sectorInfos, totalPenaltyTarget, penaltyTotal, pledgeDelta, st').
        andThen (requestUpdatePower rt (PowerDelta postResult) []) (\<lambda>sent1.
        andThen (burnFunds rt penaltyTotal sent1) (\<lambda>sent2.
        andThen (notifyPledgeChanged rt pledgeDelta sent2) (\<lambda>sent3.
        Inr \<lparr>state = st', messages = sent3, postResult = postResult,
              sectorInfos = sectorInfos, totalPenaltyTarget = totalPenaltyTarget\<rparr>)))))))"

subsection \<open>Early terminations and the end of a deadline\<close>

text \<open>\<^verbatim>\<open>miner.AdvanceDeadlineResult\<close>: the fields \<^verbatim>\<open>handleProvingDeadline\<close> reads.\<close>

record AdvanceDeadlineResult =
  PledgeDelta :: TokenAmount
  AdvancePowerDelta :: PowerPair
  DetectedFaultyPower :: PowerPair
  TotalFaultyPower :: PowerPair



text \<open>
  The further methods of the state and of its parts that \<^verbatim>\<open>TerminateSectors\<close>,
  \<^verbatim>\<open>processEarlyTerminations\<close> and \<^verbatim>\<open>handleProvingDeadline\<close> call. \<open>'tr\<close> is
  \<^verbatim>\<open>TerminationResult\<close>, \<open>'dsm\<close> is \<^verbatim>\<open>DeadlineSectorMap\<close> and \<open>'psm\<close> is
  \<^verbatim>\<open>PartitionSectorMap\<close>. A \<^verbatim>\<open>ForEach\<close> is the list of the entries it visits, in its
  order, or the error it returns. The fields \<^verbatim>\<open>PowerDelta\<close> of the advance result and
  \<^verbatim>\<open>Deadline\<close>, \<^verbatim>\<open>Partition\<close>, \<^verbatim>\<open>Sectors\<close> of a termination declaration carry a prefix
  here, their names being taken.
\<close>

record ('z, 'dls, 'dl, 'secs, 'tr, 'dsm, 'psm) MinerOps = "('z, 'dls, 'dl, 'secs) DeadlineOps" +
  ExpirePreCommits :: "'z State_scheme \<Rightarrow> ChainEpoch \<Rightarrow> go_error + (TokenAmount \<times> 'z State_scheme)"
  AdvanceDeadline ::
    "'z State_scheme \<Rightarrow> ChainEpoch \<Rightarrow> go_error + (AdvanceDeadlineResult \<times> 'z State_scheme)"
  PopEarlyTerminations ::
    "'z State_scheme \<Rightarrow> nat \<Rightarrow> nat \<Rightarrow> go_error + ('tr \<times> bool \<times> 'z State_scheme)"
  TerminationResult_IsEmpty :: "'tr \<Rightarrow> bool"
  TerminationResult_ForEach :: "'tr \<Rightarrow> go_error + (ChainEpoch \<times> BitField) list"
  Sectors_Load :: "'secs \<Rightarrow> BitField \<Rightarrow> go_error + SectorOnChainInfo list"
  AddInitialPledgeRequirement :: "'z State_scheme \<Rightarrow> TokenAmount \<Rightarrow> 'z State_scheme"
  DeadlineSectorMap_make :: "'dsm"
  DeadlineSectorMap_Add :: "'dsm \<Rightarrow> nat \<Rightarrow> nat \<Rightarrow> BitField \<Rightarrow> go_error + 'dsm"
  DeadlineSectorMap_Check :: "'dsm \<Rightarrow> nat \<Rightarrow> nat \<Rightarrow> go_error + unit"
  DeadlineSectorMap_ForEach :: "'dsm \<Rightarrow> go_error + (nat \<times> 'psm) list"
  QuantSpecForDeadline :: "'z State_scheme \<Rightarrow> nat \<Rightarrow> QuantSpec"
  Deadline_TerminateSectors ::
    "'dl \<Rightarrow> 'secs \<Rightarrow> ChainEpoch \<Rightarrow> 'psm \<Rightarrow> SectorSize \<Rightarrow> QuantSpec \<Rightarrow> go_error + (PowerPair \<times> 'dl)"

text \<open>\<^verbatim>\<open>terminationPenalty\<close>: the loop over the sectors, then the function.\<close>

fun terminationPenalty_loop ::
  "Policy \<Rightarrow> 'fe smoothing \<Rightarrow> SectorSize \<Rightarrow> ChainEpoch \<Rightarrow> 'fe \<Rightarrow> 'fe \<Rightarrow> SectorOnChainInfo list
     \<Rightarrow> TokenAmount \<Rightarrow> TokenAmount option" where
  "terminationPenalty_loop pol sm sectorSize currEpoch rewardEstimate networkQAPowerEstimate []
     totalFee = Some totalFee"
| "terminationPenalty_loop pol sm sectorSize currEpoch rewardEstimate networkQAPowerEstimate (s # rest)
     totalFee =
     (let sectorPower = QAPowerForSector pol sectorSize s in
      case PledgePenaltyForTermination sm (EpochsInDay pol) (ExpectedDayReward s)
             (currEpoch - Activation s) (ExpectedStoragePledge s) networkQAPowerEstimate sectorPower
             rewardEstimate (ReplacedDayReward s) (ReplacedSectorAge s) of
        None \<Rightarrow> None
      | Some fee \<Rightarrow>
          terminationPenalty_loop pol sm sectorSize currEpoch rewardEstimate networkQAPowerEstimate
            rest (fee + totalFee))"

definition terminationPenalty ::
  "Policy \<Rightarrow> 'fe smoothing \<Rightarrow> SectorSize \<Rightarrow> ChainEpoch \<Rightarrow> 'fe \<Rightarrow> 'fe \<Rightarrow> SectorOnChainInfo list
     \<Rightarrow> TokenAmount option" where
  "terminationPenalty pol sm sectorSize currEpoch rewardEstimate networkQAPowerEstimate sectors =
     terminationPenalty_loop pol sm sectorSize currEpoch rewardEstimate networkQAPowerEstimate
       sectors 0"

definition min64 :: "nat \<Rightarrow> nat \<Rightarrow> nat" where
  "min64 a b = (if a < b then a else b)"

text \<open>\<^verbatim>\<open>cbg.MaxLength\<close>, a constant of the cbor-gen library.\<close>

definition cbg_MaxLength :: nat where
  "cbg_MaxLength = 8192"

function requestTerminateDeals ::
  "('fe, 'r) Runtime_scheme \<Rightarrow> ChainEpoch \<Rightarrow> DealID list \<Rightarrow> msg list \<Rightarrow> exitcode + msg list" where
  "requestTerminateDeals rt epoch dealIDs sent =
     (if 0 < length dealIDs
      then (case SendRequireSuccess rt
                   \<lparr>To = StorageMarketActorAddr,
                    MethodParams = OnMinerSectorsTerminate epoch
                                     (take (min64 cbg_MaxLength (length dealIDs)) dealIDs),
                    ValueSent = 0\<rparr> sent of
              Inl code \<Rightarrow> Inl code
            | Inr sent' \<Rightarrow>
                requestTerminateDeals rt epoch
                  (drop (min64 cbg_MaxLength (length dealIDs)) dealIDs) sent')
      else Inr sent)"
  by pat_completeness auto
termination
  by (relation "measure (\<lambda>(rt, epoch, dealIDs, sent). length dealIDs)")
     (auto simp: min64_def cbg_MaxLength_def)

declare requestTerminateDeals.simps [simp del]

text \<open>The loop \<^verbatim>\<open>for _, params := range dealsToTerminate\<close> of \<^verbatim>\<open>processEarlyTerminations\<close>.\<close>

fun requestTerminateDeals_each ::
  "('fe, 'r) Runtime_scheme \<Rightarrow> (ChainEpoch \<times> DealID list) list \<Rightarrow> msg list \<Rightarrow> exitcode + msg list" where
  "requestTerminateDeals_each rt [] sent = Inr sent"
| "requestTerminateDeals_each rt ((epoch, dealIDs) # rest) sent =
     (case requestTerminateDeals rt epoch dealIDs sent of
        Inl code \<Rightarrow> Inl code
      | Inr sent' \<Rightarrow> requestTerminateDeals_each rt rest sent')"

text \<open>
  The callback of \<^verbatim>\<open>result.ForEach\<close> in \<^verbatim>\<open>processEarlyTerminations\<close>, run over the entries:
  it accumulates the initial pledge of the terminated sectors, the deals to terminate and
  the penalty.
\<close>

fun processEarlyTerminations_each ::
  "Policy \<Rightarrow> 'fe smoothing \<Rightarrow> ('z, 'dls, 'dl, 'secs, 'tr, 'dsm, 'psm, 'o) MinerOps_scheme
     \<Rightarrow> MinerInfo \<Rightarrow> 'fe ThisEpochRewardReturn \<Rightarrow> 'fe CurrentTotalPowerReturn \<Rightarrow> 'secs
     \<Rightarrow> (ChainEpoch \<times> BitField) list
     \<Rightarrow> TokenAmount \<times> (ChainEpoch \<times> DealID list) list \<times> TokenAmount
     \<Rightarrow> exitcode + (TokenAmount \<times> (ChainEpoch \<times> DealID list) list \<times> TokenAmount)" where
  "processEarlyTerminations_each pol sm ops info rewardStats pwrTotal sectors [] acc = Inr acc"
| "processEarlyTerminations_each pol sm ops info rewardStats pwrTotal sectors
     ((epoch, sectorNos) # rest) (totalInitialPledge, dealsToTerminate, penalty) =
     (case Sectors_Load ops sectors sectorNos of
        Inl err \<Rightarrow> Inl (Unwrap err ErrIllegalState)
      | Inr loaded \<Rightarrow>
          (let dealIDs = concat (map DealIDs loaded);
               totalInitialPledge' = foldl (\<lambda>total sector. total + InitialPledge sector)
                                       totalInitialPledge loaded
           in case terminationPenalty pol sm (SectorSize info) epoch
                     (ThisEpochRewardSmoothed rewardStats) (QualityAdjPowerSmoothed pwrTotal)
                     loaded of
                None \<Rightarrow> Inl ActorPanic
              | Some fee \<Rightarrow>
                  processEarlyTerminations_each pol sm ops info rewardStats pwrTotal sectors rest
                    (totalInitialPledge', dealsToTerminate @ [(epoch, dealIDs)], penalty + fee)))"

definition processEarlyTerminations_transaction ::
  "Policy \<Rightarrow> 'fe smoothing \<Rightarrow> ('z, 'dls, 'dl, 'secs, 'tr, 'dsm, 'psm, 'o) MinerOps_scheme
     \<Rightarrow> ('fe, 'r) Runtime_scheme \<Rightarrow> 'z State_scheme \<Rightarrow> msg list
     \<Rightarrow> 'fe ThisEpochRewardReturn \<Rightarrow> 'fe CurrentTotalPowerReturn
     \<Rightarrow> exitcode + ('tr \<times> bool \<times> (ChainEpoch \<times> DealID list) list \<times> TokenAmount \<times> TokenAmount
                     \<times> 'z State_scheme)" where
  "processEarlyTerminations_transaction pol sm ops rt st sent rewardStats pwrTotal =
     RequireNoErr (PopEarlyTerminations ops st (AddressedPartitionsMax pol) (AddressedSectorsMax pol))
       ErrIllegalState (\<lambda>(result, more, st1).
     if TerminationResult_IsEmpty ops result then Inr (result, more, [], 0, 0, st1)
     else
       andThen (getMinerInfo ops st1) (\<lambda>info.
       RequireNoErr (LoadSectors ops st1) ErrIllegalState (\<lambda>sectors.
       RequireNoErr (TerminationResult_ForEach ops result) ErrIllegalState (\<lambda>entries.
       andThen (processEarlyTerminations_each pol sm ops info rewardStats pwrTotal sectors entries
                  (0, [], 0)) (\<lambda>(totalInitialPledge, dealsToTerminate, penalty).
       let unlockedBalance = GetUnlockedBalance ops st1 (CurrentBalance rt sent) in
       RequireNoErr (PenalizeFundsInPriorityOrder ops st1 (CurrEpoch rt) penalty unlockedBalance)
         ErrIllegalState (\<lambda>(penaltyFromVesting, penaltyFromBalance, st2).
       let penalty' = penaltyFromVesting + penaltyFromBalance;
           st3 = AddInitialPledgeRequirement ops st2 (- totalInitialPledge);
           pledgeDelta = - (totalInitialPledge + penaltyFromVesting)
       in Inr (result, more, dealsToTerminate, penalty', pledgeDelta, st3)))))))"

text \<open>
  \<^verbatim>\<open>processEarlyTerminations\<close>: whether more terminations remain, the state and the
  messages, \<open>sent\<close> being the messages sent before it is called.
\<close>

definition processEarlyTerminations ::
  "Policy \<Rightarrow> 'fe smoothing \<Rightarrow> ('z, 'dls, 'dl, 'secs, 'tr, 'dsm, 'psm, 'o) MinerOps_scheme
     \<Rightarrow> ('fe, 'r) Runtime_scheme \<Rightarrow> 'z State_scheme \<Rightarrow> msg list
     \<Rightarrow> exitcode + (bool \<times> 'z State_scheme \<times> msg list)" where
  "processEarlyTerminations pol sm ops rt st sent =
     andThen (requestCurrentEpochBlockReward rt) (\<lambda>rewardStats.
     andThen (requestCurrentTotalPower rt) (\<lambda>pwrTotal.
     andThen (processEarlyTerminations_transaction pol sm ops rt st sent rewardStats pwrTotal)
       (\<lambda>(result, more, dealsToTerminate, penalty, pledgeDelta, st').
     if TerminationResult_IsEmpty ops result then Inr (more, st', sent)
     else
       andThen (burnFunds rt penalty sent) (\<lambda>sent1.
       andThen (notifyPledgeChanged rt pledgeDelta sent1) (\<lambda>sent2.
       andThen (requestTerminateDeals_each rt dealsToTerminate sent2) (\<lambda>sent3.
       Inr (more, st', sent3)))))))"

subsection \<open>TerminateSectors\<close>






subsection \<open>handleProvingDeadline\<close>

text \<open>
  The transaction: whether early terminations were pending before the deadline is
  advanced, the totals the method sends afterwards, the result of advancing the
  deadline, the penalty target, and the state.
\<close>

definition handleProvingDeadline_transaction ::
  "Policy \<Rightarrow> 'fe smoothing \<Rightarrow> ('z, 'dls, 'dl, 'secs, 'tr, 'dsm, 'psm, 'o) MinerOps_scheme
     \<Rightarrow> ('fe, 'r) Runtime_scheme \<Rightarrow> 'z State_scheme
     \<Rightarrow> 'fe ThisEpochRewardReturn \<Rightarrow> 'fe CurrentTotalPowerReturn
     \<Rightarrow> exitcode + (bool \<times> PowerPair \<times> TokenAmount \<times> TokenAmount \<times> AdvanceDeadlineResult
                     \<times> TokenAmount \<times> 'z State_scheme)" where
  "handleProvingDeadline_transaction pol sm ops rt st epochReward pwrTotal =
     RequireNoErr (UnlockVestedFunds ops st (CurrEpoch rt)) ErrIllegalState (\<lambda>(newlyVested, st1).
     let pledgeDeltaTotal = 0 + (- newlyVested) in
     RequireNoErr (ExpirePreCommits ops st1 (CurrEpoch rt)) ErrIllegalState (\<lambda>(depositToBurn, st2).
     let penaltyTotal = 0 + depositToBurn in
     andThen (havePendingEarlyTerminations st2) (\<lambda>hadEarlyTerminations.
     RequireNoErr (AdvanceDeadline ops st2 (CurrEpoch rt)) ErrIllegalState (\<lambda>(result, st3).
     let undeclaredPenalty =
           PledgePenaltyForUndeclaredFault sm (EpochsInDay pol) (ThisEpochRewardSmoothed epochReward)
             (QualityAdjPowerSmoothed pwrTotal) (QA (DetectedFaultyPower result));
         declaredPenalty =
           PledgePenaltyForDeclaredFault sm (EpochsInDay pol) (ThisEpochRewardSmoothed epochReward)
             (QualityAdjPowerSmoothed pwrTotal)
             (QA (TotalFaultyPower result) - QA (DetectedFaultyPower result));
         powerDeltaTotal = PowerPair_Add NewPowerPairZero (AdvancePowerDelta result);
         pledgeDeltaTotal' = pledgeDeltaTotal + PledgeDelta result;
         penaltyTarget = declaredPenalty + undeclaredPenalty
     in if penaltyTarget \<noteq> 0
        then
          let unlockedBalance = GetUnlockedBalance ops st3 (CurrentBalance rt []) in
          RequireNoErr (PenalizeFundsInPriorityOrder ops st3 (CurrEpoch rt) penaltyTarget
                          unlockedBalance) ErrIllegalState
            (\<lambda>(penaltyFromVesting, penaltyFromBalance, st4).
          Inr (hadEarlyTerminations, powerDeltaTotal,
               penaltyTotal + penaltyFromVesting + penaltyFromBalance,
               pledgeDeltaTotal' - penaltyFromVesting, result, penaltyTarget, st4))
        else Inr (hadEarlyTerminations, powerDeltaTotal, penaltyTotal, pledgeDeltaTotal', result,
                  penaltyTarget, st3)))))"

text \<open>
  What \<^verbatim>\<open>handleProvingDeadline\<close> leaves behind: the state and the messages, with the
  result of advancing the deadline, the penalty target, and whether early terminations
  were pending before (\<open>hadEarlyTerminations\<close>) and are left pending when the method
  returns (\<open>earlyTerminationsLeft\<close>: what \<^verbatim>\<open>processEarlyTerminations\<close> returned when it was
  called, and \<open>hasEarlyTerminations\<close> otherwise).
\<close>

record 'z cron_outcome = "'z outcome" +
  advanceResult :: AdvanceDeadlineResult
  penaltyTarget :: TokenAmount
  hadEarlyTerminations :: bool
  earlyTerminationsLeft :: bool

definition handleProvingDeadline ::
  "Policy \<Rightarrow> 'fe smoothing \<Rightarrow> ('z, 'dls, 'dl, 'secs, 'tr, 'dsm, 'psm, 'o) MinerOps_scheme
     \<Rightarrow> ('fe, 'r) Runtime_scheme \<Rightarrow> 'z State_scheme \<Rightarrow> exitcode + 'z cron_outcome" where
  "handleProvingDeadline pol sm ops rt st =
     andThen (requestCurrentEpochBlockReward rt) (\<lambda>epochReward.
     andThen (requestCurrentTotalPower rt) (\<lambda>pwrTotal.
     andThen (handleProvingDeadline_transaction pol sm ops rt st epochReward pwrTotal)
       (\<lambda>(hadEarlyTerminations, powerDeltaTotal, penaltyTotal, pledgeDeltaTotal, result,
          penaltyTarget, st1).
     andThen (requestUpdatePower rt powerDeltaTotal []) (\<lambda>sent1.
     andThen (burnFunds rt penaltyTotal sent1) (\<lambda>sent2.
     andThen (notifyPledgeChanged rt pledgeDeltaTotal sent2) (\<lambda>sent3.
     let newDlInfo = DeadlineInfo_of ops st1 (CurrEpoch rt) in
     andThen (enrollCronEvent rt (Last ops newDlInfo) \<lparr>EventType = CronEventProvingDeadline\<rparr> sent3)
       (\<lambda>sent4.
     andThen (havePendingEarlyTerminations st1) (\<lambda>hasEarlyTerminations.
     if \<not> hadEarlyTerminations \<and> hasEarlyTerminations
     then
       andThen (processEarlyTerminations pol sm ops rt st1 sent4) (\<lambda>(more, st2, sent5).
       andThen (if more then scheduleEarlyTerminationWork rt sent5 else Inr sent5) (\<lambda>sent6.
       Inr \<lparr>state = st2, messages = sent6, advanceResult = result, penaltyTarget = penaltyTarget,
             hadEarlyTerminations = hadEarlyTerminations, earlyTerminationsLeft = more\<rparr>))
     else
       Inr \<lparr>state = st1, messages = sent4, advanceResult = result, penaltyTarget = penaltyTarget,
             hadEarlyTerminations = hadEarlyTerminations,
             earlyTerminationsLeft = hasEarlyTerminations\<rparr>))))))))"

subsection \<open>PreCommitSector\<close>
















text \<open>
  The message that enrolls the cron event for early terminations at the next epoch, and
  the messages that enroll such an event at any epoch.
\<close>

definition early_termination_cron :: "('fe, 'r) Runtime_scheme \<Rightarrow> msg" where
  "early_termination_cron rt =
     \<lparr>To = StoragePowerActorAddr,
      MethodParams = EnrollCronEvent (CurrEpoch rt + 1)
                       \<lparr>EventType = CronEventProcessEarlyTerminations\<rparr>,
      ValueSent = 0\<rparr>"

definition is_early_termination_cron :: "msg \<Rightarrow> bool" where
  "is_early_termination_cron m =
     (case MethodParams m of
        EnrollCronEvent epoch payload \<Rightarrow> EventType payload = CronEventProcessEarlyTerminations
      | _ \<Rightarrow> False)"

text \<open>
  The five grounds on which a submission is refused. The second, third and fourth are
  checked before the deadline is known to be open.
\<close>

definition PoSt_refused_before_open ::
  "Policy \<Rightarrow> ('z, 'dls, 'dl, 'secs, 'o) DeadlineOps_scheme \<Rightarrow> 'z State_scheme
     \<Rightarrow> SubmitWindowedPoStParams \<Rightarrow> bool" where
  "PoSt_refused_before_open pol ops st params \<longleftrightarrow>
     1 < length (SubmittedProofs params)
     \<or> (case GetInfo ops st of
           Inl err \<Rightarrow> False
         | Inr info \<Rightarrow>
             (case RegisteredWindowPoStProof pol (SealProofType info) of
                Inl err \<Rightarrow> False
              | Inr windowPoStProofType \<Rightarrow>
                  length (SubmittedProofs params) = 1
                  \<and> PoStProof (SubmittedProofs params ! 0) \<noteq> windowPoStProofType)
             \<or> loadPartitionsSectorsMax pol (WindowPoStPartitionSectors info)
                 < length (Partitions params))"

definition PoSt_refused ::
  "Policy \<Rightarrow> ('z, 'dls, 'dl, 'secs, 'o) DeadlineOps_scheme \<Rightarrow> ('fe, 'r) Runtime_scheme
     \<Rightarrow> 'z State_scheme \<Rightarrow> SubmitWindowedPoStParams \<Rightarrow> bool" where
  "PoSt_refused pol ops rt st params \<longleftrightarrow>
     (let currDeadline = DeadlineInfo_of ops st (CurrEpoch rt) in
      Deadline params \<noteq> Index currDeadline
      \<or> PoSt_refused_before_open pol ops st params
      \<or> GetRandomnessFromTickets rt DomainSeparationTag_PoStChainCommit (Challenge currDeadline) []
          \<noteq> ChainCommitRand params)"

subsection \<open>The formulas of the specification, and an instance for the examples\<close>

text \<open>
  The expected reward in the words of the specification: the larger of zero and the
  power times the extrapolated cumulative sum of the ratio, shifted right by the
  precision.
\<close>

definition expected_reward_spec ::
  "'fe smoothing \<Rightarrow> 'fe \<Rightarrow> 'fe \<Rightarrow> StoragePower \<Rightarrow> ChainEpoch \<Rightarrow> TokenAmount" where
  "expected_reward_spec sm reward_est network_qa_est qa duration =
     big_Rsh (max 0 (qa * ExtrapolatedCumSumOfRatio sm duration 0 reward_est network_qa_est))
       Precision"

text \<open>
  The undeclared-fault fee in the words of the specification: the expected reward for
  the power over the undeclared-fault period, five days of epochs; it is the smoothed
  reward estimate when the smoothed estimate of the network power is zero.
\<close>

definition undeclared_fault_fee_spec ::
  "'fe smoothing \<Rightarrow> int \<Rightarrow> 'fe \<Rightarrow> 'fe \<Rightarrow> StoragePower \<Rightarrow> TokenAmount" where
  "undeclared_fault_fee_spec sm eid reward_est network_est qa_power =
     (if Estimate sm network_est = 0 then Estimate sm reward_est
      else expected_reward_spec sm reward_est network_est qa_power (word_of_int (5 * eid)))"

text \<open>An age in days, a real number: a number of epochs divided by the epochs of a day.\<close>

definition days :: "int \<Rightarrow> int \<Rightarrow> real" where
  "days eid epochs = real_of_int epochs / real_of_int eid"

text \<open>
  The termination fee in the words of the specification, over the integers and the real
  numbers: the larger of the undeclared-fault fee and the twenty-day reward at activation
  plus the day reward times the smaller of the sector's age in days and the lifetime cap
  of 70 days, plus the replaced sector's day reward times the smaller of its age in days
  and the cap minus the capped age of the new sector. A token amount is a whole number:
  the part after the twenty-day reward is rounded down.
\<close>

definition termination_fee_spec ::
  "'fe smoothing \<Rightarrow> int \<Rightarrow> TokenAmount \<Rightarrow> int \<Rightarrow> TokenAmount \<Rightarrow> 'fe \<Rightarrow> StoragePower
     \<Rightarrow> 'fe \<Rightarrow> TokenAmount \<Rightarrow> int \<Rightarrow> TokenAmount" where
  "termination_fee_spec sm eid day_reward sector_age twenty_day_reward network_est qa_power
       reward_est replaced_day_reward replaced_age =
     (let lifetime_cap = 70;
          capped_new_age = min (days eid sector_age) lifetime_cap
      in max (undeclared_fault_fee_spec sm eid reward_est network_est qa_power)
             (twenty_day_reward
              + \<lfloor>real_of_int day_reward * capped_new_age
                 + real_of_int replaced_day_reward
                   * min (days eid replaced_age) (lifetime_cap - capped_new_age)\<rfloor>))"

text \<open>
  An instance of the smoothing parameters for the examples: an estimate is a constant
  (as \<^verbatim>\<open>smoothing.TestingConstantEstimate\<close> of the tests makes one), and the cumulative sum
  of the ratio of two constants over \<open>delta\<close> epochs is \<open>delta\<close> times their quotient, in
  128 fractional bits.
\<close>

definition constant_smoothing :: "int smoothing" where
  "constant_smoothing =
     \<lparr>Estimate = (\<lambda>e. e),
      ExtrapolatedCumSumOfRatio =
        (\<lambda>delta relativeStart num den.
           if den = 0 then 0 else (sint delta * num * 2 ^ 128) div den)\<rparr>"

subsection \<open>An instance of the state and the runtime for the examples\<close>

text \<open>
  Modelled from the spec: a state with the balance fields of the specification's data
  model ("\<open>pre_commit_deposits\<close>, \<open>locked_funds\<close>, \<open>fee_debt\<close>, \<open>initial_pledge\<close>") and funds
  methods that follow its balance invariant, "\<open>available = actor_balance -
  (pre_commit_deposits + locked_funds + initial_pledge) - fee_debt\<close>". Nothing vests, and a
  penalty is taken from the unlocked balance, the shortfall going to the fee debt. The
  instance serves the examples only; the theorems hold for every instance.
\<close>

record example_state = State +
  Info :: MinerInfo
  AllSectors :: "SectorOnChainInfo list"
  PreCommitDeposits :: TokenAmount
  LockedFunds :: TokenAmount
  InitialPledgeRequirement :: TokenAmount
  FeeDebt :: TokenAmount

definition example_unlocked :: "example_state \<Rightarrow> TokenAmount \<Rightarrow> TokenAmount" where
  "example_unlocked st actorBalance =
     actorBalance - (PreCommitDeposits st + LockedFunds st + InitialPledgeRequirement st)"

definition example_funds :: "unit example_state_ext FundsOps" where
  "example_funds =
     \<lparr>GetInfo = (\<lambda>st. Inr (Info st)),
      UnlockVestedFunds = (\<lambda>st epoch. Inr (0, st)),
      GetAvailableBalance = (\<lambda>st actorBalance. example_unlocked st actorBalance - FeeDebt st),
      GetUnlockedBalance = example_unlocked,
      RepayDebt = (\<lambda>st actorBalance.
         if example_unlocked st actorBalance < FeeDebt st then Inl (Some ErrInsufficientFunds)
         else Inr (FeeDebt st, st\<lparr>FeeDebt := 0\<rparr>)),
      MeetsInitialPledgeCondition = (\<lambda>st actorBalance. 0 \<le> example_unlocked st actorBalance),
      AssertBalanceInvariants = (\<lambda>st actorBalance. 0 \<le> example_unlocked st actorBalance),
      PenalizeFundsInPriorityOrder = (\<lambda>st epoch target unlockedBalance.
         let fromBalance = min target (max 0 unlockedBalance) in
         Inr (0, fromBalance, st\<lparr>FeeDebt := FeeDebt st + (target - fromBalance)\<rparr>))\<rparr>"

definition example_info :: MinerInfo where
  "example_info =
     \<lparr>Owner = IDAddress 100, Worker = IDAddress 101, ControlAddresses = [IDAddress 102],
      SealProofType = 3, SectorSize = 34359738368, WindowPoStPartitionSectors = 2349\<rparr>"

definition example_sector :: "SectorNumber \<Rightarrow> SectorOnChainInfo" where
  "example_sector n =
     \<lparr>SealProof = 3, SectorNumber = n, SealedCID = Cid 1 n, DealIDs = [], Activation = 100,
      Expiration = 500000, InitialPledge = 1500, ExpectedDayReward = 10,
      ExpectedStoragePledge = 200, ReplacedSectorAge = 0, ReplacedDayReward = 0\<rparr>"

definition example_st :: example_state where
  "example_st =
     \<lparr>EarlyTerminations = BitField {||}, Info = example_info,
      AllSectors = [example_sector 5, example_sector 7], PreCommitDeposits = 1000,
      LockedFunds = 2000, InitialPledgeRequirement = 3000, FeeDebt = 500\<rparr>"

text \<open>
  The runtime of the examples: epoch 1000, the owner calling, a balance of 10000 less
  what has been sent, every send succeeding, constant estimates, a proof verifier that
  accepts whatever it is given.
\<close>

definition example_reward :: "int ThisEpochRewardReturn" where
  "example_reward =
     \<lparr>ThisEpochRewardSmoothed = 1125899906842624, ThisEpochBaselinePower = 35184372088832\<rparr>"

definition example_power :: "int CurrentTotalPowerReturn" where
  "example_power = \<lparr>QualityAdjPowerSmoothed = 1125899906842624\<rparr>"

definition example_rt :: "int Runtime" where
  "example_rt =
     \<lparr>CurrEpoch = 1000, Caller = IDAddress 100,
      CurrentBalance = (\<lambda>sent. 10000 - sum_list (map ValueSent sent)),
      SendCode = (\<lambda>sent m. Ok),
      ThisEpochReward = Inr example_reward,
      CurrentTotalPower = Inr example_power,
      GetRandomnessFromTickets = (\<lambda>tag epoch entropy. [1, 2, 3]),
      GetRandomnessFromBeacon = (\<lambda>tag epoch entropy. [4, 5, 6]),
      Receiver = IDAddress 1000,
      IDFromAddress = (\<lambda>a. case a of IDAddress n \<Rightarrow> Inr n | _ \<Rightarrow> Inl None),
      MarshalCBOR = (\<lambda>a. Inr [0]),
      VerifyPoSt = (\<lambda>info. Proofs info \<noteq> [])\<rparr>"

text \<open>The state of the examples with early terminations pending in deadline 3.\<close>

definition pending_st :: example_state where
  "pending_st = example_st\<lparr>EarlyTerminations := BitField {|3|}\<rparr>"

text \<open>
  The constants of the testground build of policy.go, and a policy for the examples
  that uses them: 2880 epochs a day, a seal proof type \<open>p\<close> proven in windows by the
  proof type \<open>p + 5\<close>, four partitions a submission, each sector counting its size as
  power.
\<close>

definition WPoStProvingPeriod :: ChainEpoch where
  "WPoStProvingPeriod = 240"

definition WPoStChallengeWindow :: ChainEpoch where
  "WPoStChallengeWindow = 5"

definition WPoStPeriodDeadlines_testground :: nat where
  "WPoStPeriodDeadlines_testground = unat (WPoStProvingPeriod div WPoStChallengeWindow)"

definition FaultMaxAge_testground :: ChainEpoch where
  "FaultMaxAge_testground = WPoStProvingPeriod * 3 - 1"

definition example_policy :: Policy where
  "example_policy =
     \<lparr>EpochsInDay = 2880, WPoStPeriodDeadlines = WPoStPeriodDeadlines_testground,
      FaultMaxAge = FaultMaxAge_testground,
      RegisteredWindowPoStProof = (\<lambda>p. Inr (p + 5)),
      loadPartitionsSectorsMax = (\<lambda>n. 4),
      AddressedPartitionsMax = 200, AddressedSectorsMax = 10000,
      QAPowerForSector = (\<lambda>ssize s. int ssize)\<rparr>"

text \<open>
  Deadline methods for the examples: the deadline open at epoch 1000 is number 8 of the
  period that started at 960; it holds the sectors of the state in one partition; the
  sectors a submission skips become new faults and the others are to be proven.
\<close>

definition example_deadline :: DeadlineInfo where
  "example_deadline = \<lparr>PeriodStart = 960, Index = 8, Challenge = 980\<rparr>"

definition example_skipped :: "PoStPartition list \<Rightarrow> nat fset" where
  "example_skipped ps =
     (case ps of
        [] \<Rightarrow> {||}
      | p # rest \<Rightarrow> (case Skipped p of BitField s \<Rightarrow> s | Undecodable \<Rightarrow> {||}))"

definition example_record ::
  "SectorOnChainInfo list \<Rightarrow> SectorSize \<Rightarrow> PoStPartition list \<Rightarrow> PoStResult" where
  "example_record secs ssize ps =
     (let skipped = filter (\<lambda>s. SectorNumber s |\<in>| example_skipped ps) secs;
          proven = filter (\<lambda>s. SectorNumber s |\<notin>| example_skipped ps) secs;
          faulty = \<lparr>Raw = int ssize * int (length skipped), QA = int ssize * int (length skipped)\<rparr>
      in \<lparr>Sectors = BitField (fset_of_list (map SectorNumber proven)),
          IgnoredSectors = BitField {||},
          PowerDelta = PowerPair_Sub NewPowerPairZero faulty,
          NewFaultyPower = faulty,
          RetractedRecoveryPower = NewPowerPairZero,
          RecoveredPower = NewPowerPairZero\<rparr>)"

definition example_ops :: "(unit example_state_ext, unit, unit, SectorOnChainInfo list) DeadlineOps" where
  "example_ops =
     \<lparr>GetInfo = GetInfo example_funds,
      UnlockVestedFunds = UnlockVestedFunds example_funds,
      GetAvailableBalance = GetAvailableBalance example_funds,
      GetUnlockedBalance = GetUnlockedBalance example_funds,
      RepayDebt = RepayDebt example_funds,
      MeetsInitialPledgeCondition = MeetsInitialPledgeCondition example_funds,
      AssertBalanceInvariants = AssertBalanceInvariants example_funds,
      PenalizeFundsInPriorityOrder = PenalizeFundsInPriorityOrder example_funds,
      DeadlineInfo_of = (\<lambda>st epoch. example_deadline),
      IsOpen = (\<lambda>d. True),
      Last = (\<lambda>d. 1004),
      QuantSpec_of = (\<lambda>d. \<lparr>quant_unit = 240, quant_offset = 1005\<rparr>),
      LoadSectors = (\<lambda>st. Inr (AllSectors st)),
      LoadDeadlines = (\<lambda>st. Inr ()),
      LoadDeadline = (\<lambda>dls i. Inr ()),
      RecordProvenSectors = (\<lambda>dl secs ssize quant faultExpiration ps.
         Inr (example_record secs ssize ps, ())),
      LoadForProof = (\<lambda>secs proven ignored.
         case proven of
           BitField s \<Rightarrow> Inr (filter (\<lambda>x. SectorNumber x |\<in>| s) secs)
         | Undecodable \<Rightarrow> Inl None),
      UpdateDeadline = (\<lambda>dls i dl. Inr ()),
      SaveDeadlines = (\<lambda>st dls. Inr st)\<rparr>"

text \<open>
  Submissions for the examples: sector 5 skipped and one proof of the right type; the
  same with no proof; both sectors skipped and no proof; two proofs; and a caller that is none of the miner's addresses.
\<close>

definition example_post :: SubmitWindowedPoStParams where
  "example_post =
     \<lparr>Deadline = 8,
      Partitions = [\<lparr>PartitionIndex = 0, Skipped = BitField {|5|}\<rparr>],
      SubmittedProofs = [\<lparr>PoStProof = 8, ProofBytes = [7]\<rparr>],
      ChainCommitRand = [1, 2, 3]\<rparr>"

definition example_post_no_proof :: SubmitWindowedPoStParams where
  "example_post_no_proof = example_post\<lparr>SubmittedProofs := []\<rparr>"

definition example_post_skip_all :: SubmitWindowedPoStParams where
  "example_post_skip_all =
     example_post\<lparr>Partitions := [\<lparr>PartitionIndex = 0, Skipped = BitField {|5, 7|}\<rparr>],
                   SubmittedProofs := []\<rparr>"

definition example_post_two_proofs :: SubmitWindowedPoStParams where
  "example_post_two_proofs =
     example_post\<lparr>SubmittedProofs := [\<lparr>PoStProof = 8, ProofBytes = [7]\<rparr>,
                                     \<lparr>PoStProof = 8, ProofBytes = [9]\<rparr>]\<rparr>"

definition stranger_rt :: "int Runtime" where
  "stranger_rt = example_rt\<lparr>Caller := IDAddress 999\<rparr>"

text \<open>
  What the first submission of the examples records and leaves behind: sector 5 is a
  new fault of 32 GiB, sector 7 is proven, and the penalty target is the difference of
  the two fees on that power, 14400 - 6163 = 8237 epochs of reward; 4000 of it can be
  burnt and the rest becomes fee debt.
\<close>

definition example_post_result :: PoStResult where
  "example_post_result =
     \<lparr>Sectors = BitField {|7|}, IgnoredSectors = BitField {||},
      PowerDelta = \<lparr>Raw = - 34359738368, QA = - 34359738368\<rparr>,
      NewFaultyPower = \<lparr>Raw = 34359738368, QA = 34359738368\<rparr>,
      RetractedRecoveryPower = \<lparr>Raw = 0, QA = 0\<rparr>,
      RecoveredPower = \<lparr>Raw = 0, QA = 0\<rparr>\<rparr>"

definition example_post_outcome :: "unit example_state_ext PoSt_outcome" where
  "example_post_outcome =
     \<lparr>state = example_st\<lparr>FeeDebt := 283021164933716\<rparr>,
      messages = [\<lparr>To = StoragePowerActorAddr,
                   MethodParams = UpdateClaimedPower (- 34359738368) (- 34359738368),
                   ValueSent = 0\<rparr>,
                  \<lparr>To = BurntFundsActorAddr, MethodParams = MethodSend, ValueSent = 4000\<rparr>],
      postResult = example_post_result,
      sectorInfos = [example_sector 7],
      totalPenaltyTarget = 283021164937216\<rparr>"


text \<open>What the submission that skips both sectors and carries no proof leaves behind.\<close>

definition example_skip_all_result :: PoStResult where
  "example_skip_all_result =
     \<lparr>Sectors = BitField {||}, IgnoredSectors = BitField {||},
      PowerDelta = \<lparr>Raw = - 68719476736, QA = - 68719476736\<rparr>,
      NewFaultyPower = \<lparr>Raw = 68719476736, QA = 68719476736\<rparr>,
      RetractedRecoveryPower = \<lparr>Raw = 0, QA = 0\<rparr>,
      RecoveredPower = \<lparr>Raw = 0, QA = 0\<rparr>\<rparr>"

definition example_skip_all_outcome :: "unit example_state_ext PoSt_outcome" where
  "example_skip_all_outcome =
     \<lparr>state = example_st\<lparr>FeeDebt := 566042329870932\<rparr>,
      messages = [\<lparr>To = StoragePowerActorAddr,
                   MethodParams = UpdateClaimedPower (- 68719476736) (- 68719476736),
                   ValueSent = 0\<rparr>,
                  \<lparr>To = BurntFundsActorAddr, MethodParams = MethodSend, ValueSent = 4000\<rparr>],
      postResult = example_skip_all_result,
      sectorInfos = [],
      totalPenaltyTarget = 566042329874432\<rparr>"

text \<open>
  The further state methods for the examples. Terminated sectors wait in deadlines 3
  (sector 5) and 4 (sector 7), both terminated at epoch 900; a call of
  \<^verbatim>\<open>PopEarlyTerminations\<close> handles one deadline, deadline 3 first, and reports whether a
  deadline is left. Advancing the deadline detects sector 5 as faulty, finds sector 7
  faulty from before, and queues both deadlines for early termination. A map of
  deadlines to sectors is a list of pairs, with at most one partition in a deadline.
\<close>

definition example_advance :: AdvanceDeadlineResult where
  "example_advance =
     \<lparr>PledgeDelta = 0,
      AdvancePowerDelta = \<lparr>Raw = - 34359738368, QA = - 34359738368\<rparr>,
      DetectedFaultyPower = \<lparr>Raw = 34359738368, QA = 34359738368\<rparr>,
      TotalFaultyPower = \<lparr>Raw = 68719476736, QA = 68719476736\<rparr>\<rparr>"

definition example_pop :: "nat fset \<Rightarrow> (ChainEpoch \<times> BitField) list \<times> nat fset" where
  "example_pop s =
     (if 3 |\<in>| s then ([(900, BitField {|5|})], s |-| {|3|})
      else if 4 |\<in>| s then ([(900, BitField {|7|})], s |-| {|4|})
      else ([], {||}))"

definition example_miner_ops ::
  "(unit example_state_ext, unit, unit, SectorOnChainInfo list, (ChainEpoch \<times> BitField) list,
    (nat \<times> BitField) list, BitField) MinerOps" where
  "example_miner_ops =
     \<lparr>GetInfo = GetInfo example_ops,
      UnlockVestedFunds = UnlockVestedFunds example_ops,
      GetAvailableBalance = GetAvailableBalance example_ops,
      GetUnlockedBalance = GetUnlockedBalance example_ops,
      RepayDebt = RepayDebt example_ops,
      MeetsInitialPledgeCondition = MeetsInitialPledgeCondition example_ops,
      AssertBalanceInvariants = AssertBalanceInvariants example_ops,
      PenalizeFundsInPriorityOrder = PenalizeFundsInPriorityOrder example_ops,
      DeadlineInfo_of = DeadlineInfo_of example_ops,
      IsOpen = IsOpen example_ops,
      Last = Last example_ops,
      QuantSpec_of = QuantSpec_of example_ops,
      LoadSectors = LoadSectors example_ops,
      LoadDeadlines = LoadDeadlines example_ops,
      LoadDeadline = LoadDeadline example_ops,
      RecordProvenSectors = RecordProvenSectors example_ops,
      LoadForProof = LoadForProof example_ops,
      UpdateDeadline = UpdateDeadline example_ops,
      SaveDeadlines = SaveDeadlines example_ops,
      ExpirePreCommits = (\<lambda>st epoch. Inr (0, st)),
      AdvanceDeadline = (\<lambda>st epoch.
         Inr (example_advance,
              st\<lparr>EarlyTerminations := bf_Set (bf_Set (EarlyTerminations st) 3) 4\<rparr>)),
      PopEarlyTerminations = (\<lambda>st maxPartitions maxSectors.
         case EarlyTerminations st of
           BitField s \<Rightarrow>
             Inr (fst (example_pop s), snd (example_pop s) \<noteq> {||},
                  st\<lparr>EarlyTerminations := BitField (snd (example_pop s))\<rparr>)
         | Undecodable \<Rightarrow> Inl None),
      TerminationResult_IsEmpty = (\<lambda>result. result = []),
      TerminationResult_ForEach = Inr,
      Sectors_Load = (\<lambda>secs sectorNos.
         case sectorNos of
           BitField s \<Rightarrow> Inr (filter (\<lambda>x. SectorNumber x |\<in>| s) secs)
         | Undecodable \<Rightarrow> Inl None),
      AddInitialPledgeRequirement = (\<lambda>st delta.
         st\<lparr>InitialPledgeRequirement := InitialPledgeRequirement st + delta\<rparr>),
      DeadlineSectorMap_make = [],
      DeadlineSectorMap_Add = (\<lambda>m dlIdx partIdx sectorNos. Inr (m @ [(dlIdx, sectorNos)])),
      DeadlineSectorMap_Check = (\<lambda>m maxPartitions maxSectors.
         if length m \<le> maxPartitions then Inr () else Inl None),
      DeadlineSectorMap_ForEach = Inr,
      QuantSpecForDeadline = (\<lambda>st dlIdx. \<lparr>quant_unit = 240, quant_offset = 1005\<rparr>),
      Deadline_TerminateSectors = (\<lambda>dl secs epoch partitionSectors ssize quant.
         case partitionSectors of
           BitField s \<Rightarrow>
             Inr (\<lparr>Raw = int ssize * int (fcard s), QA = int ssize * int (fcard s)\<rparr>, ())
         | Undecodable \<Rightarrow> Inl None)\<rparr>"





text \<open>
  What the end of the deadline leaves behind in the state of the examples: the penalty
  target is the undeclared-fault fee on the 32 GiB detected plus the declared-fault fee on
  the other 32 GiB, 14400 + 6163 epochs of reward.
\<close>

definition example_cron_outcome :: "unit example_state_ext cron_outcome" where
  "example_cron_outcome =
     \<lparr>state = example_st\<lparr>EarlyTerminations := BitField {|4|}, InitialPledgeRequirement := 1500,
                           FeeDebt := 1201319532556884\<rparr>,
      messages = [\<lparr>To = StoragePowerActorAddr,
                   MethodParams = UpdateClaimedPower (- 34359738368) (- 34359738368),
                   ValueSent = 0\<rparr>,
                  \<lparr>To = BurntFundsActorAddr, MethodParams = MethodSend, ValueSent = 4000\<rparr>,
                  \<lparr>To = StoragePowerActorAddr,
                   MethodParams = EnrollCronEvent 1004 \<lparr>EventType = CronEventProvingDeadline\<rparr>,
                   ValueSent = 0\<rparr>,
                  \<lparr>To = StoragePowerActorAddr, MethodParams = UpdatePledgeTotal (- 1500),
                   ValueSent = 0\<rparr>,
                  \<lparr>To = StoragePowerActorAddr,
                   MethodParams = EnrollCronEvent 1001
                                    \<lparr>EventType = CronEventProcessEarlyTerminations\<rparr>,
                   ValueSent = 0\<rparr>],
      advanceResult = example_advance,
      penaltyTarget = 706539300061184,
      hadEarlyTerminations = False,
      earlyTerminationsLeft = True\<rparr>"










section \<open>Properties\<close>

subsection \<open>Integers and epochs\<close>

lemma sint_minEpoch: "sint (minEpoch a b) = min (sint a) (sint b)"
  by (simp add: minEpoch_def word_sless_alt min_def)

lemma sint_lifetimeCap:
  assumes "0 < eid" "70 * eid < 2 ^ 63"
  shows "sint (TerminationLifetimeCap * word_of_int eid :: 64 word) = 70 * eid"
proof -
  have "TerminationLifetimeCap * word_of_int eid = (word_of_int (70 * eid) :: 64 word)"
    by (simp add: TerminationLifetimeCap_def)
  moreover have "signed_take_bit 63 (70 * eid) = 70 * eid"
    using assms by (intro signed_take_bit_int_eq_self) simp_all
  ultimately show ?thesis by (simp only: sint_sbintrunc') simp
qed

lemma sint_epoch_diff:
  fixes a b :: "64 word"
  assumes "- (2 ^ 63) \<le> sint a - sint b" "sint a - sint b < 2 ^ 63"
  shows "sint (a - b) = sint a - sint b"
proof -
  have "a - b = word_of_int (sint a - sint b)" by simp
  moreover have "signed_take_bit 63 (sint a - sint b) = sint a - sint b"
    using assms by (intro signed_take_bit_int_eq_self) simp_all
  ultimately show ?thesis by (simp only: sint_sbintrunc') simp
qed

lemma sint_remaining_age:
  assumes "0 < eid" "70 * eid < 2 ^ 63" "70 * eid - 2 ^ 63 < sint sectorAge"
  shows "sint (TerminationLifetimeCap * word_of_int eid
               - minEpoch sectorAge (TerminationLifetimeCap * word_of_int eid))
         = 70 * eid - min (sint sectorAge) (70 * eid)"
proof -
  let ?cap = "TerminationLifetimeCap * word_of_int eid :: 64 word"
  have c: "sint ?cap = 70 * eid" using assms(1,2) by (rule sint_lifetimeCap)
  have m: "sint (minEpoch sectorAge ?cap) = min (sint sectorAge) (70 * eid)"
    by (simp add: sint_minEpoch c)
  have lo: "- (2 ^ 63) \<le> sint ?cap - sint (minEpoch sectorAge ?cap)"
    using assms by (simp add: c m min_def)
  have hi: "sint ?cap - sint (minEpoch sectorAge ?cap) < 2 ^ 63"
    using assms by (simp add: c m min_def)
  have "sint (?cap - minEpoch sectorAge ?cap) = sint ?cap - sint (minEpoch sectorAge ?cap)"
    using lo hi by (rule sint_epoch_diff)
  then show ?thesis by (simp only: c m)
qed

lemma days_min:
  assumes "0 < eid"
  shows "min (days eid a) (days eid b) = days eid (min a b)"
  using assms by (simp add: days_def min_def divide_le_cancel)

lemma days_cap:
  assumes "0 < eid"
  shows "days eid (70 * eid) = 70"
  using assms by (simp add: days_def)

lemma days_diff: "days eid a - days eid b = days eid (a - b)"
  by (simp add: days_def diff_divide_distrib)

lemma floor_days_sum:
  assumes "0 < eid"
  shows "\<lfloor>real_of_int x * days eid a + real_of_int y * days eid b\<rfloor> = (x * a + y * b) div eid"
proof -
  have "real_of_int x * days eid a + real_of_int y * days eid b
        = real_of_int (x * a + y * b) / real_of_int eid"
    by (simp add: days_def add_divide_distrib)
  then show ?thesis by (simp only: floor_divide_of_int_eq)
qed

lemma big_Div_pos: "0 < b \<Longrightarrow> big_Div a b = Some (a div b)"
  by (simp add: big_Div_def)

lemma big_Div_euclid:
  assumes "b \<noteq> 0"
  shows "\<exists>q r. big_Div a b = Some q \<and> a = q * b + r \<and> 0 \<le> r \<and> r < \<bar>b\<bar>"
proof -
  have e: "sgn b * (a div \<bar>b\<bar>) * b = (a div \<bar>b\<bar>) * \<bar>b\<bar>"
    by (simp add: abs_sgn mult.assoc mult.commute)
  have "a = (a div \<bar>b\<bar>) * \<bar>b\<bar> + a mod \<bar>b\<bar>" by simp
  then have "a = sgn b * (a div \<bar>b\<bar>) * b + a mod \<bar>b\<bar>" by (simp only: e)
  moreover have "0 \<le> a mod \<bar>b\<bar>" "a mod \<bar>b\<bar> < \<bar>b\<bar>" using assms by simp_all
  ultimately show ?thesis using assms unfolding big_Div_def by auto
qed

lemma big_Rsh_max0: "big_Rsh (max 0 x) n = max (big_Rsh x n) 0"
proof (cases "0 \<le> x")
  case True
  then have "0 \<le> x div 2 ^ n" by (simp add: pos_imp_zdiv_nonneg_iff)
  with True show ?thesis by (simp add: big_Rsh_def max_def)
next
  case False
  then have "x div 2 ^ n < 0" by (simp add: div_neg_pos_less0)
  with False show ?thesis by (simp add: big_Rsh_def max_def)
qed

subsection \<open>monies.go\<close>

lemma PledgePenaltyForUndeclaredFault_spec:
  "PledgePenaltyForUndeclaredFault sm eid rew net qa = undeclared_fault_fee_spec sm eid rew net qa"
  by (simp add: PledgePenaltyForUndeclaredFault_def undeclared_fault_fee_spec_def
      ExpectedRewardForPower_def expected_reward_spec_def UndeclaredFaultProjectionPeriod_def
      Let_def big_Rsh_max0)

text \<open>
  C3, as amended. With \<^verbatim>\<open>builtin.EpochsInDay\<close> positive and 70 days of epochs within
  \<^verbatim>\<open>int64\<close>, and for every sector age above the lifetime cap less \<open>2 ^ 63\<close> epochs (so for
  every age that is not negative), \<^verbatim>\<open>PledgePenaltyForTermination\<close> returns, for every
  reward and power estimate, power, day reward, twenty-day reward, replaced day reward
  and replaced age, the termination fee of the specification: the maximum of the
  undeclared-fault fee, which is the expected reward over five days of epochs, and the
  twenty-day reward plus the day reward times min(age in days, 70) plus the replaced day
  reward times min(replaced age in days, 70 minus the capped age in days), the ages in
  days being exact fractions and the sum of the two products rounded down to a whole
  token amount. Below that bound the subtraction of epochs wraps in \<^verbatim>\<open>int64\<close>, and the
  function returns another amount.
\<close>

theorem PledgePenaltyForTermination_spec:
  assumes "0 < eid" "70 * eid < 2 ^ 63" "70 * eid - 2 ^ 63 < sint sectorAge"
  shows "PledgePenaltyForTermination sm eid dayReward sectorAge twenty net qa rew replDay replAge
         = Some (termination_fee_spec sm eid dayReward (sint sectorAge) twenty net qa rew replDay
                   (sint replAge))"
proof -
  let ?cap = "TerminationLifetimeCap * word_of_int eid :: 64 word"
  let ?capped = "minEpoch sectorAge ?cap"
  let ?rel = "minEpoch replAge (?cap - ?capped)"
  have c: "sint ?cap = 70 * eid" using assms(1,2) by (rule sint_lifetimeCap)
  have a: "sint ?capped = min (sint sectorAge) (70 * eid)"
    by (simp add: sint_minEpoch c)
  have b: "sint ?rel = min (sint replAge) (70 * eid - min (sint sectorAge) (70 * eid))"
    by (simp only: sint_minEpoch sint_remaining_age [OF assms])
  have d1: "min (days eid (sint sectorAge)) 70 = days eid (sint ?capped)"
    using assms(1) by (simp only: a days_min [OF assms(1), symmetric] days_cap)
  have d2: "min (days eid (sint replAge)) (70 - days eid (sint ?capped)) = days eid (sint ?rel)"
    by (simp only: a b days_min [OF assms(1), symmetric] days_diff [symmetric]
        days_cap [OF assms(1)])
  have "termination_fee_spec sm eid dayReward (sint sectorAge) twenty net qa rew replDay
          (sint replAge)
        = max (undeclared_fault_fee_spec sm eid rew net qa)
              (twenty + (dayReward * sint ?capped + replDay * sint ?rel) div eid)"
    unfolding termination_fee_spec_def Let_def d1 d2 by (simp only: floor_days_sum [OF assms(1)])
  then show ?thesis
    using assms(1)
    by (simp add: PledgePenaltyForTermination_def Let_def big_Div_pos
        PledgePenaltyForUndeclaredFault_spec)
qed

lemma PledgePenaltyForTermination_example:
  "PledgePenaltyForTermination constant_smoothing 2880 100 5760 2000 (2 ^ 50) 1 (2 ^ 50) 50 288000
     = Some 14400"
  "PledgePenaltyForTermination constant_smoothing 2880 100 5760 20000 (2 ^ 50) 1 (2 ^ 50) 50 288000
     = Some 23600"
  by (simp_all add: PledgePenaltyForTermination_def PledgePenaltyForUndeclaredFault_def
      ExpectedRewardForPower_def constant_smoothing_def TerminationLifetimeCap_def minEpoch_def
      big_Div_def big_Rsh_def Precision_def Let_def UndeclaredFaultProjectionPeriod_def)

theorem PledgePenaltyForTermination_spec_witness:
  "(0::int) < 2880 \<and> (70::int) * 2880 < 2 ^ 63 \<and> (70::int) * 2880 - 2 ^ 63 < sint (5760 :: ChainEpoch) \<and>
   PledgePenaltyForTermination constant_smoothing 2880 100 5760 2000 (2 ^ 50) 1 (2 ^ 50) 50 288000
     = Some (termination_fee_spec constant_smoothing 2880 100 5760 2000 (2 ^ 50) 1 (2 ^ 50) 50 288000) \<and>
   termination_fee_spec constant_smoothing 2880 100 5760 2000 (2 ^ 50) 1 (2 ^ 50) 50 288000 = 14400 \<and>
   PledgePenaltyForTermination constant_smoothing 2880 100 5760 20000 (2 ^ 50) 1 (2 ^ 50) 50 288000
     = Some (termination_fee_spec constant_smoothing 2880 100 5760 20000 (2 ^ 50) 1 (2 ^ 50) 50 288000) \<and>
   termination_fee_spec constant_smoothing 2880 100 5760 20000 (2 ^ 50) 1 (2 ^ 50) 50 288000 = 23600"
proof -
  have h1: "(0::int) < 2880" and h2: "(70::int) * 2880 < 2 ^ 63"
    and h3: "(70::int) * 2880 - 2 ^ 63 < sint (5760 :: ChainEpoch)" by simp_all
  show ?thesis
    using h1 h2 h3 PledgePenaltyForTermination_example
      PledgePenaltyForTermination_spec [OF h1 h2 h3, of constant_smoothing 100 2000 "2 ^ 50" 1
        "2 ^ 50" 50 288000]
      PledgePenaltyForTermination_spec [OF h1 h2 h3, of constant_smoothing 100 20000 "2 ^ 50" 1
        "2 ^ 50" 50 288000]
    by simp
qed

text \<open>
  At the age \<open>- 2 ^ 63\<close> the remaining age \<^verbatim>\<open>lifetimeCap - cappedSectorAge\<close> wraps to a
  negative number of epochs: with a twenty-day reward of 10000 and a replaced sector of
  ten days at 1000 a day the formula gives 20000, and the function returns the
  undeclared-fault fee, 14400.
\<close>

theorem PledgePenaltyForTermination_counterexample:
  "sint (- 9223372036854775808 :: ChainEpoch) = - 9223372036854775808 \<and>
   PledgePenaltyForTermination constant_smoothing 2880 0 (- 9223372036854775808) 10000 (2 ^ 50) 1
     (2 ^ 50) 1000 28800 = Some 14400 \<and>
   termination_fee_spec constant_smoothing 2880 0 (- 9223372036854775808) 10000 (2 ^ 50) 1
     (2 ^ 50) 1000 28800 = 20000"
proof -
  have s: "sint (- 9223372036854775808 :: ChainEpoch) = - 9223372036854775808" by simp
  have c: "PledgePenaltyForTermination constant_smoothing 2880 0 (- 9223372036854775808) 10000
             (2 ^ 50) 1 (2 ^ 50) 1000 28800 = Some 14400"
    by (simp add: PledgePenaltyForTermination_def PledgePenaltyForUndeclaredFault_def
        ExpectedRewardForPower_def constant_smoothing_def TerminationLifetimeCap_def minEpoch_def
        big_Div_def big_Rsh_def Precision_def Let_def UndeclaredFaultProjectionPeriod_def)
  have f: "termination_fee_spec constant_smoothing 2880 0 (- 9223372036854775808) 10000 (2 ^ 50) 1
             (2 ^ 50) 1000 28800 = 20000"
    by (simp add: termination_fee_spec_def undeclared_fault_fee_spec_def expected_reward_spec_def
        constant_smoothing_def days_def big_Rsh_def Precision_def Let_def)
  from s c f show ?thesis by simp
qed

text \<open>
  C4, as amended. \<^verbatim>\<open>ExpectedRewardForPower\<close> returns the formula of the specification,
  max(0, power times the extrapolated cumulative sum of the ratio) shifted right by the
  128 bits of the precision, when the smoothed network power estimate is not zero; when
  it is zero, the function returns the smoothed reward estimate.
\<close>

theorem ExpectedRewardForPower_spec:
  "(Estimate sm net \<noteq> 0 \<longrightarrow>
      ExpectedRewardForPower sm rew net qa d = expected_reward_spec sm rew net qa d) \<and>
   (Estimate sm net = 0 \<longrightarrow> ExpectedRewardForPower sm rew net qa d = Estimate sm rew)"
  by (simp add: ExpectedRewardForPower_def expected_reward_spec_def Let_def big_Rsh_max0)

theorem ExpectedRewardForPower_spec_witness:
  "Estimate constant_smoothing (2 ^ 50) \<noteq> 0 \<and>
   ExpectedRewardForPower constant_smoothing (2 ^ 50) (2 ^ 50) (2 ^ 36) 2880
     = expected_reward_spec constant_smoothing (2 ^ 50) (2 ^ 50) (2 ^ 36) 2880 \<and>
   expected_reward_spec constant_smoothing (2 ^ 50) (2 ^ 50) (2 ^ 36) 2880 = 2880 * 2 ^ 36 \<and>
   Estimate constant_smoothing 0 = 0 \<and>
   ExpectedRewardForPower constant_smoothing 5 0 (2 ^ 36) 2880 = Estimate constant_smoothing 5"
proof -
  have h1: "Estimate constant_smoothing (2 ^ 50) \<noteq> 0" and h2: "Estimate constant_smoothing 0 = 0"
    by (simp_all add: constant_smoothing_def)
  have v: "expected_reward_spec constant_smoothing (2 ^ 50) (2 ^ 50) (2 ^ 36) 2880 = 2880 * 2 ^ 36"
    by (simp add: constant_smoothing_def expected_reward_spec_def big_Rsh_def Precision_def)
  show ?thesis
    using h1 h2 v
      ExpectedRewardForPower_spec [of constant_smoothing "2 ^ 50" "2 ^ 50" "2 ^ 36" 2880]
      ExpectedRewardForPower_spec [of constant_smoothing 0 5 "2 ^ 36" 2880]
    by blast
qed

text \<open>
  C4 as stated fails: with a network power estimate of zero, a reward estimate of 5 and
  no power, the function returns 5 and the formula is 0.
\<close>

theorem ExpectedRewardForPower_counterexample:
  "ExpectedRewardForPower constant_smoothing 5 0 0 2880
   \<noteq> expected_reward_spec constant_smoothing 5 0 0 2880"
  by (simp add: ExpectedRewardForPower_def expected_reward_spec_def constant_smoothing_def
      big_Rsh_def)

text \<open>
  C5, as amended. When max(network power, baseline power, power) is not zero,
  \<^verbatim>\<open>InitialPledgeForPower\<close> returns the expected reward for the power over the initial
  pledge projection period plus \<open>q\<close>, the quotient of (3 times the circulating supply
  times the power) by (10 times that maximum): the lock target fraction is 3/10, and the
  division is Euclidean, with a remainder \<open>r\<close> that is never negative.
\<close>

theorem InitialPledgeForPower_spec:
  assumes "max (max (Estimate sm net) baseline) qa \<noteq> 0"
  shows "\<exists>q r. InitialPledgeForPower sm eid qa baseline rew net circ
                 = Some (ExpectedRewardForPower sm rew net qa (InitialPledgeProjectionPeriod eid) + q)
               \<and> 3 * circ * qa = q * (10 * max (max (Estimate sm net) baseline) qa) + r
               \<and> 0 \<le> r
               \<and> r < \<bar>10 * max (max (Estimate sm net) baseline) qa\<bar>"
proof -
  let ?b = "10 * max (max (Estimate sm net) baseline) qa"
  have "?b \<noteq> 0" using assms by simp
  from big_Div_euclid [OF this, of "3 * circ * qa"]
  obtain q r where "big_Div (3 * circ * qa) ?b = Some q"
    and "3 * circ * qa = q * ?b + r" and "0 \<le> r" and "r < \<bar>?b\<bar>"
    by blast
  then show ?thesis
    by (intro exI [of _ q] exI [of _ r])
       (simp add: InitialPledgeForPower_def InitialPledgeLockTarget_def Let_def)
qed

lemma InitialPledgeForPower_example:
  "InitialPledgeForPower constant_smoothing 2880 (2 ^ 36) (2 ^ 45) (2 ^ 50) (2 ^ 50) (10 ^ 9)
     = Some (57600 * 2 ^ 36 + 18310)"
  by (simp add: InitialPledgeForPower_def ExpectedRewardForPower_def constant_smoothing_def
      big_Div_def Let_def InitialPledgeLockTarget_def InitialPledgeProjectionPeriod_def
      InitialPledgeFactor_def big_Rsh_def Precision_def)

theorem InitialPledgeForPower_spec_witness:
  "max (max (Estimate constant_smoothing (2 ^ 50)) (2 ^ 45)) (2 ^ 36) \<noteq> 0 \<and>
   (\<exists>q r. InitialPledgeForPower constant_smoothing 2880 (2 ^ 36) (2 ^ 45) (2 ^ 50) (2 ^ 50) (10 ^ 9)
            = Some (ExpectedRewardForPower constant_smoothing (2 ^ 50) (2 ^ 50) (2 ^ 36)
                      (InitialPledgeProjectionPeriod 2880) + q)
          \<and> 3 * 10 ^ 9 * 2 ^ 36
            = q * (10 * max (max (Estimate constant_smoothing (2 ^ 50)) (2 ^ 45)) (2 ^ 36)) + r
          \<and> 0 \<le> r
          \<and> r < \<bar>10 * max (max (Estimate constant_smoothing (2 ^ 50)) (2 ^ 45)) (2 ^ 36)\<bar>)"
proof -
  have h: "max (max (Estimate constant_smoothing (2 ^ 50)) (2 ^ 45)) (2 ^ 36) \<noteq> (0::int)"
    by (simp add: constant_smoothing_def)
  show ?thesis
    using h InitialPledgeForPower_spec [OF h, of 2880 "2 ^ 50" "10 ^ 9"] by blast
qed

text \<open>
  C5 as stated fails: with no power, no baseline and a network estimate of zero the
  denominator is zero and the function panics instead of returning.
\<close>

theorem InitialPledgeForPower_counterexample:
  "InitialPledgeForPower constant_smoothing 2880 0 0 5 0 1000 = None"
  by (simp add: InitialPledgeForPower_def constant_smoothing_def big_Div_def Let_def)

subsection \<open>Sequencing and sends\<close>

lemma andThen_InrE:
  assumes "andThen r k = Inr y"
  obtains x where "r = Inr x" "k x = Inr y"
  using assms by (cases r) (simp_all add: andThen_def)

lemma AbortfOnErr_InrE:
  assumes "AbortfOnErr r code k = Inr y"
  obtains x where "r = Inr x" "k x = Inr y"
  using assms by (cases r) (simp_all add: AbortfOnErr_def)

lemma RequireNoErr_InrE:
  assumes "RequireNoErr r code k = Inr y"
  obtains x where "r = Inr x" "k x = Inr y"
  using assms by (cases r) (simp_all add: RequireNoErr_def)

lemma Assert_InrE:
  assumes "Assert ok k = Inr y"
  obtains "ok" "k = Inr y"
  using assms by (cases ok) (simp_all add: Assert_def)

lemma ValidateImmediateCallerIs_InrE:
  assumes "ValidateImmediateCallerIs rt addrs k = Inr y"
  obtains "Caller rt \<in> set addrs" "k = Inr y"
  using assms by (cases "Caller rt \<in> set addrs") (simp_all add: ValidateImmediateCallerIs_def)

lemma SendRequireSuccess_InrE:
  assumes "SendRequireSuccess rt m sent = Inr sent'"
  obtains "SendCode rt sent m = Ok" "sent' = sent @ [m]"
  using assms by (cases "SendCode rt sent m = Ok") (simp_all add: SendRequireSuccess_def Let_def)

lemma burnFunds_Inr:
  assumes "burnFunds rt amt sent = Inr sent'"
  shows "sent' = sent @ (if 0 < amt
           then [\<lparr>To = BurntFundsActorAddr, MethodParams = MethodSend, ValueSent = amt\<rparr>] else [])"
  using assms by (auto simp: burnFunds_def elim: SendRequireSuccess_InrE split: if_splits)

lemma notifyPledgeChanged_Inr:
  assumes "notifyPledgeChanged rt pledgeDelta sent = Inr sent'"
  shows "sent' = sent @ (if pledgeDelta \<noteq> 0
           then [\<lparr>To = StoragePowerActorAddr, MethodParams = UpdatePledgeTotal pledgeDelta,
                  ValueSent = 0\<rparr>] else [])"
  using assms by (auto simp: notifyPledgeChanged_def elim: SendRequireSuccess_InrE split: if_splits)

lemma VerifyPledgeRequirementsAndRepayDebts_Inr:
  assumes "VerifyPledgeRequirementsAndRepayDebts ops bal st = Inr (toBurn, st')"
  shows "RepayDebt ops st bal = Inr (toBurn, st')"
    and "MeetsInitialPledgeCondition ops st' (bal - toBurn)"
  using assms
  by (auto simp: VerifyPledgeRequirementsAndRepayDebts_def Let_def split: sum.splits if_splits)

lemma getMinerInfo_Inr: "getMinerInfo ops st = Inr info \<Longrightarrow> GetInfo ops st = Inr info"
  by (auto simp: getMinerInfo_def elim: RequireNoErr_InrE)

lemma bf_Count_nonempty: "S \<noteq> {||} \<Longrightarrow> \<exists>n. bf_Count (BitField S) = Inr n \<and> 0 < n"
  by (simp add: bf_Count_def fcard_0_eq [symmetric] del: fcard_0_eq)

lemma bf_Count_zero: "bf_Count b = Inr 0 \<Longrightarrow> b = BitField {||}"
  by (cases b) (simp_all add: bf_Count_def)

subsection \<open>WithdrawBalance\<close>

lemma WithdrawBalance_transaction_Inr:
  assumes "WithdrawBalance_transaction ops rt st = Inr (info, newlyVested, feeToBurn, avail, st')"
  shows "EarlyTerminations st = BitField {||}"
    and "GetInfo ops st = Inr info"
    and "Caller rt = Owner info"
    and "\<exists>st1. UnlockVestedFunds ops st (CurrEpoch rt) = Inr (newlyVested, st1) \<and>
               RepayDebt ops st1 (CurrentBalance rt []) = Inr (feeToBurn, st') \<and>
               avail = GetAvailableBalance ops st1 (CurrentBalance rt [])"
  using assms unfolding WithdrawBalance_transaction_def
  by (auto simp: Let_def VerifyPledgeRequirementsAndRepayDebts_Inr(1) getMinerInfo_Inr bf_Count_zero
      elim!: andThen_InrE RequireNoErr_InrE AbortfOnErr_InrE ValidateImmediateCallerIs_InrE
      split: sum.splits if_splits)

lemma WithdrawBalance_returns:
  assumes "WithdrawBalance ops rt st params = Inr out"
  shows "\<exists>info newlyVested st1 feeToBurn.
           EarlyTerminations st = BitField {||} \<and>
           GetInfo ops st = Inr info \<and>
           UnlockVestedFunds ops st (CurrEpoch rt) = Inr (newlyVested, st1) \<and>
           RepayDebt ops st1 (CurrentBalance rt []) = Inr (feeToBurn, state out) \<and>
           messages out =
             (let amountWithdrawn = min (GetAvailableBalance ops st1 (CurrentBalance rt []))
                                        (AmountRequested params)
              in (if 0 < amountWithdrawn
                  then [\<lparr>To = Owner info, MethodParams = MethodSend, ValueSent = amountWithdrawn\<rparr>]
                  else [])
                 @ (if 0 < feeToBurn
                    then [\<lparr>To = BurntFundsActorAddr, MethodParams = MethodSend, ValueSent = feeToBurn\<rparr>]
                    else [])
                 @ (if newlyVested \<noteq> 0
                    then [\<lparr>To = StoragePowerActorAddr,
                           MethodParams = UpdatePledgeTotal (- newlyVested), ValueSent = 0\<rparr>]
                    else []))"
proof -
  from assms obtain info newlyVested feeToBurn avail st' sent1 sent2 sent3 where
    t: "WithdrawBalance_transaction ops rt st = Inr (info, newlyVested, feeToBurn, avail, st')"
    and s1: "(if 0 < min avail (AmountRequested params)
              then SendRequireSuccess rt
                     \<lparr>To = Owner info, MethodParams = MethodSend,
                      ValueSent = min avail (AmountRequested params)\<rparr> []
              else Inr []) = Inr sent1"
    and s2: "burnFunds rt feeToBurn sent1 = Inr sent2"
    and s3: "notifyPledgeChanged rt (- newlyVested) sent2 = Inr sent3"
    and o: "out = \<lparr>state = st', messages = sent3\<rparr>"
    unfolding WithdrawBalance_def
    by (auto simp: Let_def elim!: andThen_InrE Assert_InrE split: if_splits)
  from s1 have s1': "sent1 = (if 0 < min avail (AmountRequested params)
       then [\<lparr>To = Owner info, MethodParams = MethodSend,
              ValueSent = min avail (AmountRequested params)\<rparr>]
       else [])"
    by (auto split: if_splits elim: SendRequireSuccess_InrE)
  from WithdrawBalance_transaction_Inr(4) [OF t] obtain st1 where
    "UnlockVestedFunds ops st (CurrEpoch rt) = Inr (newlyVested, st1)"
    "RepayDebt ops st1 (CurrentBalance rt []) = Inr (feeToBurn, st')"
    "avail = GetAvailableBalance ops st1 (CurrentBalance rt [])" by blast
  then show ?thesis
    using WithdrawBalance_transaction_Inr(1,2) [OF t] s1' burnFunds_Inr [OF s2]
      notifyPledgeChanged_Inr [OF s3] o
    by (intro exI [of _ info] exI [of _ newlyVested] exI [of _ st1] exI [of _ feeToBurn])
       (simp add: Let_def)
qed

lemma WithdrawBalance_pending:
  assumes "EarlyTerminations st = BitField S" "S \<noteq> {||}"
  shows "\<exists>code. WithdrawBalance ops rt st params = Inl code"
    and "0 \<le> AmountRequested params \<Longrightarrow> GetInfo ops st = Inr info
         \<Longrightarrow> WithdrawBalance ops rt st params = Inl ErrForbidden"
proof -
  from bf_Count_nonempty [OF assms(2)] obtain n where n: "bf_Count (BitField S) = Inr n" "0 < n"
    by blast
  have t: "\<exists>code. WithdrawBalance_transaction ops rt st = Inl code"
    using assms(1) n
    by (simp add: WithdrawBalance_transaction_def andThen_def ValidateImmediateCallerIs_def
        getMinerInfo_def RequireNoErr_def split: sum.splits)
  then show "\<exists>code. WithdrawBalance ops rt st params = Inl code"
    by (auto simp: WithdrawBalance_def andThen_def)
  show "WithdrawBalance ops rt st params = Inl ErrForbidden"
    if "0 \<le> AmountRequested params" "GetInfo ops st = Inr info"
    using assms(1) n that
    by (simp add: WithdrawBalance_def WithdrawBalance_transaction_def andThen_def
        ValidateImmediateCallerIs_def getMinerInfo_def RequireNoErr_def)
qed


text \<open>
  C6, as amended. In every state whose early-terminations bit field is not empty,
  \<^verbatim>\<open>WithdrawBalance\<close> aborts and the state stays as it was; the exit code is
  \<^verbatim>\<open>ErrForbidden\<close> when the requested amount is not negative and the miner info loads (a
  negative request is refused first, with \<^verbatim>\<open>ErrIllegalArgument\<close>). When the call
  returns, the bit field was empty, the fee debt has been repaid in the committed state
  (\<^verbatim>\<open>RepayDebt\<close> after vesting), and the messages sent are, in this order: the transfer
  to the owner of min(requested, available balance) when that is positive, the burn of
  the repaid debt when positive, and the pledge update when funds vested.
\<close>

theorem WithdrawBalance_early_terminations:
  "(\<forall>S. EarlyTerminations st = BitField S \<and> S \<noteq> {||} \<longrightarrow>
        (\<exists>code. WithdrawBalance ops rt st params = Inl code) \<and>
        persisted st (WithdrawBalance ops rt st params) = st \<and>
        (0 \<le> AmountRequested params \<and> (\<exists>info. GetInfo ops st = Inr info) \<longrightarrow>
           WithdrawBalance ops rt st params = Inl ErrForbidden)) \<and>
   (\<forall>out. WithdrawBalance ops rt st params = Inr out \<longrightarrow>
        (\<exists>info newlyVested st1 feeToBurn.
           EarlyTerminations st = BitField {||} \<and>
           GetInfo ops st = Inr info \<and>
           UnlockVestedFunds ops st (CurrEpoch rt) = Inr (newlyVested, st1) \<and>
           RepayDebt ops st1 (CurrentBalance rt []) = Inr (feeToBurn, state out) \<and>
           messages out =
             (let amountWithdrawn = min (GetAvailableBalance ops st1 (CurrentBalance rt []))
                                        (AmountRequested params)
              in (if 0 < amountWithdrawn
                  then [\<lparr>To = Owner info, MethodParams = MethodSend, ValueSent = amountWithdrawn\<rparr>]
                  else [])
                 @ (if 0 < feeToBurn
                    then [\<lparr>To = BurntFundsActorAddr, MethodParams = MethodSend, ValueSent = feeToBurn\<rparr>]
                    else [])
                 @ (if newlyVested \<noteq> 0
                    then [\<lparr>To = StoragePowerActorAddr,
                           MethodParams = UpdatePledgeTotal (- newlyVested), ValueSent = 0\<rparr>]
                    else []))))"
proof (intro conjI allI impI)
  fix S assume "EarlyTerminations st = BitField S \<and> S \<noteq> {||}"
  then have p: "EarlyTerminations st = BitField S" "S \<noteq> {||}" by simp_all
  show a: "\<exists>code. WithdrawBalance ops rt st params = Inl code"
    by (rule WithdrawBalance_pending(1) [OF p])
  then show "persisted st (WithdrawBalance ops rt st params) = st"
    by (auto simp: persisted_def)
  show "WithdrawBalance ops rt st params = Inl ErrForbidden"
    if "0 \<le> AmountRequested params \<and> (\<exists>info. GetInfo ops st = Inr info)"
    using that WithdrawBalance_pending(2) [OF p] by blast
next
  fix out assume "WithdrawBalance ops rt st params = Inr out"
  then show "\<exists>info newlyVested st1 feeToBurn.
           EarlyTerminations st = BitField {||} \<and>
           GetInfo ops st = Inr info \<and>
           UnlockVestedFunds ops st (CurrEpoch rt) = Inr (newlyVested, st1) \<and>
           RepayDebt ops st1 (CurrentBalance rt []) = Inr (feeToBurn, state out) \<and>
           messages out =
             (let amountWithdrawn = min (GetAvailableBalance ops st1 (CurrentBalance rt []))
                                        (AmountRequested params)
              in (if 0 < amountWithdrawn
                  then [\<lparr>To = Owner info, MethodParams = MethodSend, ValueSent = amountWithdrawn\<rparr>]
                  else [])
                 @ (if 0 < feeToBurn
                    then [\<lparr>To = BurntFundsActorAddr, MethodParams = MethodSend, ValueSent = feeToBurn\<rparr>]
                    else [])
                 @ (if newlyVested \<noteq> 0
                    then [\<lparr>To = StoragePowerActorAddr,
                           MethodParams = UpdatePledgeTotal (- newlyVested), ValueSent = 0\<rparr>]
                    else []))"
    by (rule WithdrawBalance_returns)
qed

lemma example_funds_simps:
  "GetInfo example_funds st = Inr (Info st)"
  "UnlockVestedFunds example_funds st e = Inr (0, st)"
  "GetAvailableBalance example_funds st b = example_unlocked st b - FeeDebt st"
  "GetUnlockedBalance example_funds = example_unlocked"
  "RepayDebt example_funds st b =
     (if example_unlocked st b < FeeDebt st then Inl (Some ErrInsufficientFunds)
      else Inr (FeeDebt st, st\<lparr>FeeDebt := 0\<rparr>))"
  "MeetsInitialPledgeCondition example_funds st b = (0 \<le> example_unlocked st b)"
  "AssertBalanceInvariants example_funds st b = (0 \<le> example_unlocked st b)"
  by (simp_all add: example_funds_def)

lemma WithdrawBalance_example:
  "WithdrawBalance example_funds example_rt example_st \<lparr>AmountRequested = 10000\<rparr>
     = Inr \<lparr>state = example_st\<lparr>FeeDebt := 0\<rparr>,
            messages = [\<lparr>To = IDAddress 100, MethodParams = MethodSend, ValueSent = 3500\<rparr>,
                        \<lparr>To = BurntFundsActorAddr, MethodParams = MethodSend, ValueSent = 500\<rparr>]\<rparr>"
  by (simp add: WithdrawBalance_def WithdrawBalance_transaction_def andThen_def
      ValidateImmediateCallerIs_def getMinerInfo_def RequireNoErr_def AbortfOnErr_def Assert_def
      VerifyPledgeRequirementsAndRepayDebts_def example_funds_simps example_unlocked_def
      example_st_def example_rt_def example_info_def bf_Count_def burnFunds_def
      notifyPledgeChanged_def SendRequireSuccess_def Let_def)

theorem WithdrawBalance_early_terminations_witness:
  "EarlyTerminations pending_st = BitField {|3|} \<and> {|3::nat|} \<noteq> {||} \<and>
   0 \<le> AmountRequested \<lparr>AmountRequested = 1\<rparr> \<and> GetInfo example_funds pending_st = Inr example_info \<and>
   WithdrawBalance example_funds example_rt pending_st \<lparr>AmountRequested = 1\<rparr> = Inl ErrForbidden \<and>
   persisted pending_st (WithdrawBalance example_funds example_rt pending_st \<lparr>AmountRequested = 1\<rparr>)
     = pending_st \<and>
   WithdrawBalance example_funds example_rt example_st \<lparr>AmountRequested = 10000\<rparr>
     = Inr \<lparr>state = example_st\<lparr>FeeDebt := 0\<rparr>,
            messages = [\<lparr>To = IDAddress 100, MethodParams = MethodSend, ValueSent = 3500\<rparr>,
                        \<lparr>To = BurntFundsActorAddr, MethodParams = MethodSend, ValueSent = 500\<rparr>]\<rparr> \<and>
   EarlyTerminations example_st = BitField {||} \<and>
   RepayDebt example_funds example_st (CurrentBalance example_rt []) = Inr (500, example_st\<lparr>FeeDebt := 0\<rparr>)"
proof -
  have h1: "EarlyTerminations pending_st = BitField {|3|} \<and> {|3::nat|} \<noteq> {||}"
    by (simp add: pending_st_def)
  have h2: "0 \<le> AmountRequested \<lparr>AmountRequested = 1\<rparr> \<and>
            (\<exists>info. GetInfo example_funds pending_st = Inr info)"
    by (simp add: example_funds_simps)
  have h3: "GetInfo example_funds pending_st = Inr example_info"
    by (simp add: example_funds_simps pending_st_def example_st_def)
  have h4: "RepayDebt example_funds example_st (CurrentBalance example_rt [])
              = Inr (500, example_st\<lparr>FeeDebt := 0\<rparr>)"
    by (simp add: example_funds_simps example_unlocked_def example_st_def example_rt_def)
  have h5: "EarlyTerminations example_st = BitField {||}" by (simp add: example_st_def)
  show ?thesis
    using h1 h2 h3 h4 h5 WithdrawBalance_example
      WithdrawBalance_early_terminations
        [of pending_st example_funds example_rt "\<lparr>AmountRequested = 1\<rparr>"]
      WithdrawBalance_early_terminations
        [of example_st example_funds example_rt "\<lparr>AmountRequested = 10000\<rparr>"]
    by blast
qed

text \<open>
  C6 as stated fails: with early terminations pending, a request for a negative amount
  aborts with \<^verbatim>\<open>ErrIllegalArgument\<close>, not \<^verbatim>\<open>ErrForbidden\<close>.
\<close>

theorem WithdrawBalance_counterexample:
  "EarlyTerminations pending_st = BitField {|3|} \<and>
   WithdrawBalance example_funds example_rt pending_st \<lparr>AmountRequested = - 1\<rparr>
     = Inl ErrIllegalArgument"
  by (simp add: WithdrawBalance_def pending_st_def)

subsection \<open>SubmitWindowedPoSt\<close>


lemma SubmitWindowedPoSt_verify_Inr:
  assumes "SubmitWindowedPoSt_verify rt params currDeadline infos = Inr u"
  shows "infos = [] \<or> SubmittedProofs params \<noteq> []"
  using assms by (auto simp: SubmitWindowedPoSt_verify_def split: if_splits)

lemma SubmitWindowedPoSt_transaction_Inr:
  assumes "SubmitWindowedPoSt_transaction pol sm ops rt st params rewardStats pwrTotal
             = Inr (pr, infos, target, penaltyTotal, pledgeDelta, st')"
  shows "\<exists>info currDeadline deadlines deadline.
           SubmitWindowedPoSt_validate pol ops rt st params = Inr (info, currDeadline) \<and>
           SubmitWindowedPoSt_record pol ops st params info currDeadline
             = Inr (deadlines, deadline, pr, infos) \<and>
           SubmitWindowedPoSt_verify rt params currDeadline infos = Inr ()"
    and "target =
           PledgePenaltyForUndeclaredFault sm (EpochsInDay pol) (ThisEpochRewardSmoothed rewardStats)
             (QualityAdjPowerSmoothed pwrTotal) (QA (PenaltyPower pr))
           - PledgePenaltyForDeclaredFault sm (EpochsInDay pol) (ThisEpochRewardSmoothed rewardStats)
               (QualityAdjPowerSmoothed pwrTotal) (QA (PenaltyPower pr))
           + PledgePenaltyForDeclaredFault sm (EpochsInDay pol) (ThisEpochRewardSmoothed rewardStats)
               (QualityAdjPowerSmoothed pwrTotal) (QA (RecoveredPower pr))"
    and "\<exists>vestingPenaltyTotal balancePenaltyTotal st1.
           PenalizeFundsInPriorityOrder ops st (CurrEpoch rt) target
             (GetUnlockedBalance ops st (CurrentBalance rt []))
             = Inr (vestingPenaltyTotal, balancePenaltyTotal, st1) \<and>
           penaltyTotal = vestingPenaltyTotal + balancePenaltyTotal \<and>
           pledgeDelta = - vestingPenaltyTotal"
  using assms unfolding SubmitWindowedPoSt_transaction_def
  by (auto simp: Let_def elim!: andThen_InrE RequireNoErr_InrE)

lemma SubmitWindowedPoSt_Inr:
  assumes "SubmitWindowedPoSt pol sm ops rt st params = Inr out"
  shows "\<exists>rewardStats pwrTotal penaltyTotal pledgeDelta.
           Deadline params < WPoStPeriodDeadlines pol \<and>
           ThisEpochReward rt = Inr rewardStats \<and> CurrentTotalPower rt = Inr pwrTotal \<and>
           SubmitWindowedPoSt_transaction pol sm ops rt st params rewardStats pwrTotal
             = Inr (postResult out, sectorInfos out, totalPenaltyTarget out, penaltyTotal,
                    pledgeDelta, state out)"
  using assms unfolding SubmitWindowedPoSt_def
  by (auto simp: requestCurrentEpochBlockReward_def requestCurrentTotalPower_def
      elim!: andThen_InrE split: if_splits)

text \<open>
  C1. When \<^verbatim>\<open>SubmitWindowedPoSt\<close> returns, that is for every call that passes validation,
  the penalty target is the undeclared-fault fee on the QA power of the new skipped
  faults plus the retracted recoveries, minus the declared-fault fee on that same power,
  plus the declared-fault fee on the QA power of the recovered sectors; the fees are
  those of the estimates the reward and power actors returned, and the target is what
  \<^verbatim>\<open>PenalizeFundsInPriorityOrder\<close> was called with.
\<close>

theorem SubmitWindowedPoSt_penalty_target:
  assumes "SubmitWindowedPoSt pol sm ops rt st params = Inr out"
  shows "\<exists>rewardStats pwrTotal.
           ThisEpochReward rt = Inr rewardStats \<and> CurrentTotalPower rt = Inr pwrTotal \<and>
           totalPenaltyTarget out =
             PledgePenaltyForUndeclaredFault sm (EpochsInDay pol) (ThisEpochRewardSmoothed rewardStats)
               (QualityAdjPowerSmoothed pwrTotal)
               (QA (NewFaultyPower (postResult out)) + QA (RetractedRecoveryPower (postResult out)))
             - PledgePenaltyForDeclaredFault sm (EpochsInDay pol) (ThisEpochRewardSmoothed rewardStats)
                 (QualityAdjPowerSmoothed pwrTotal)
                 (QA (NewFaultyPower (postResult out)) + QA (RetractedRecoveryPower (postResult out)))
             + PledgePenaltyForDeclaredFault sm (EpochsInDay pol) (ThisEpochRewardSmoothed rewardStats)
                 (QualityAdjPowerSmoothed pwrTotal) (QA (RecoveredPower (postResult out))) \<and>
           (\<exists>vestingPenaltyTotal balancePenaltyTotal st1.
              PenalizeFundsInPriorityOrder ops st (CurrEpoch rt) (totalPenaltyTarget out)
                (GetUnlockedBalance ops st (CurrentBalance rt []))
                = Inr (vestingPenaltyTotal, balancePenaltyTotal, st1))"
proof -
  from SubmitWindowedPoSt_Inr [OF assms] obtain rewardStats pwrTotal penaltyTotal pledgeDelta where
    q: "ThisEpochReward rt = Inr rewardStats" "CurrentTotalPower rt = Inr pwrTotal"
    and t: "SubmitWindowedPoSt_transaction pol sm ops rt st params rewardStats pwrTotal
             = Inr (postResult out, sectorInfos out, totalPenaltyTarget out, penaltyTotal,
                    pledgeDelta, state out)"
    by blast
  have "QA (PenaltyPower (postResult out))
        = QA (NewFaultyPower (postResult out)) + QA (RetractedRecoveryPower (postResult out))"
    by (simp add: PenaltyPower_def PowerPair_Add_def)
  with SubmitWindowedPoSt_transaction_Inr(2,3) [OF t] q show ?thesis by auto
qed


lemma SubmitWindowedPoSt_validate_refused:
  assumes "PoSt_refused pol ops rt st params"
  shows "\<exists>code. SubmitWindowedPoSt_validate pol ops rt st params = Inl code"
  using assms
  by (auto simp: SubmitWindowedPoSt_validate_def PoSt_refused_def PoSt_refused_before_open_def
      andThen_def RequireNoErr_def ValidateImmediateCallerIs_def getMinerInfo_def Let_def
      split: sum.splits)

lemma SubmitWindowedPoSt_validate_refused_code:
  assumes "PoSt_refused pol ops rt st params"
    and "GetInfo ops st = Inr info"
    and "Caller rt \<in> set (ControlAddresses info @ [Owner info, Worker info])"
    and "RegisteredWindowPoStProof pol (SealProofType info) = Inr t"
    and "PoSt_refused_before_open pol ops st params \<or> IsOpen ops (DeadlineInfo_of ops st (CurrEpoch rt))"
  shows "SubmitWindowedPoSt_validate pol ops rt st params = Inl ErrIllegalArgument"
  using assms
  by (auto simp: SubmitWindowedPoSt_validate_def PoSt_refused_def PoSt_refused_before_open_def
      andThen_def RequireNoErr_def ValidateImmediateCallerIs_def getMinerInfo_def Let_def)

lemma SubmitWindowedPoSt_validate_Inl:
  assumes "SubmitWindowedPoSt_validate pol ops rt st params = Inl code"
  shows "\<exists>code'. SubmitWindowedPoSt pol sm ops rt st params = Inl code'"
    and "ThisEpochReward rt = Inr rw \<Longrightarrow> CurrentTotalPower rt = Inr pw \<Longrightarrow> code = ErrIllegalArgument
         \<Longrightarrow> SubmitWindowedPoSt pol sm ops rt st params = Inl ErrIllegalArgument"
  using assms
  by (auto simp: SubmitWindowedPoSt_def SubmitWindowedPoSt_transaction_def andThen_def
      requestCurrentEpochBlockReward_def requestCurrentTotalPower_def split: sum.splits)

text \<open>
  C7, as amended. When the deadline of the parameters is not the index of the current
  deadline, or more than one proof is supplied, or the one proof's type is not the
  miner's window PoSt proof type, or there are more partitions than the submission
  limit, or the chain-commit randomness is not the randomness of the challenge epoch,
  \<^verbatim>\<open>SubmitWindowedPoSt\<close> aborts and the state stays as it was. The exit code is
  \<^verbatim>\<open>ErrIllegalArgument\<close> when the checks that come first pass: the reward and power
  actors answer, the miner info loads, the caller is one of the miner's addresses, the
  proof type of the seal proof is known and, for the deadline and the randomness, the
  current deadline is open.
\<close>

theorem SubmitWindowedPoSt_refused:
  assumes "PoSt_refused pol ops rt st params"
  shows "(\<exists>code. SubmitWindowedPoSt pol sm ops rt st params = Inl code) \<and>
         persisted st (SubmitWindowedPoSt pol sm ops rt st params) = st \<and>
         ((\<exists>rw pw info t.
             ThisEpochReward rt = Inr rw \<and> CurrentTotalPower rt = Inr pw \<and>
             GetInfo ops st = Inr info \<and>
             Caller rt \<in> set (ControlAddresses info @ [Owner info, Worker info]) \<and>
             RegisteredWindowPoStProof pol (SealProofType info) = Inr t \<and>
             (PoSt_refused_before_open pol ops st params
              \<or> IsOpen ops (DeadlineInfo_of ops st (CurrEpoch rt))))
          \<longrightarrow> SubmitWindowedPoSt pol sm ops rt st params = Inl ErrIllegalArgument)"
proof -
  from SubmitWindowedPoSt_validate_refused [OF assms] obtain code where
    v: "SubmitWindowedPoSt_validate pol ops rt st params = Inl code" by blast
  have a: "\<exists>code. SubmitWindowedPoSt pol sm ops rt st params = Inl code"
    by (rule SubmitWindowedPoSt_validate_Inl(1) [OF v])
  then have b: "persisted st (SubmitWindowedPoSt pol sm ops rt st params) = st"
    by (auto simp: persisted_def)
  have c: "SubmitWindowedPoSt pol sm ops rt st params = Inl ErrIllegalArgument"
    if "ThisEpochReward rt = Inr rw" "CurrentTotalPower rt = Inr pw" "GetInfo ops st = Inr info"
      "Caller rt \<in> set (ControlAddresses info @ [Owner info, Worker info])"
      "RegisteredWindowPoStProof pol (SealProofType info) = Inr t"
      "PoSt_refused_before_open pol ops st params \<or> IsOpen ops (DeadlineInfo_of ops st (CurrEpoch rt))"
    for rw pw info t
  proof -
    have "SubmitWindowedPoSt_validate pol ops rt st params = Inl ErrIllegalArgument"
      by (rule SubmitWindowedPoSt_validate_refused_code [OF assms that(3-6)])
    from SubmitWindowedPoSt_validate_Inl(2) [OF this that(1,2)] show ?thesis by simp
  qed
  from a b c show ?thesis by blast
qed

text \<open>
  C10. A \<^verbatim>\<open>SubmitWindowedPoSt\<close> call with no proof returns only when, after the claimed
  partitions have been recorded, no sector is left to prove; and when the call gets as
  far as recording the partitions and a sector is left to prove, it aborts with
  \<^verbatim>\<open>ErrIllegalArgument\<close>.
\<close>

theorem SubmitWindowedPoSt_no_proof:
  assumes "SubmittedProofs params = []"
  shows "(\<forall>out. SubmitWindowedPoSt pol sm ops rt st params = Inr out \<longrightarrow> sectorInfos out = []) \<and>
         (\<forall>rw pw info currDeadline deadlines deadline pr infos.
            Deadline params < WPoStPeriodDeadlines pol \<and>
            ThisEpochReward rt = Inr rw \<and> CurrentTotalPower rt = Inr pw \<and>
            SubmitWindowedPoSt_validate pol ops rt st params = Inr (info, currDeadline) \<and>
            SubmitWindowedPoSt_record pol ops st params info currDeadline
              = Inr (deadlines, deadline, pr, infos) \<and>
            infos \<noteq> []
            \<longrightarrow> SubmitWindowedPoSt pol sm ops rt st params = Inl ErrIllegalArgument)"
proof (intro conjI allI impI)
  fix out assume "SubmitWindowedPoSt pol sm ops rt st params = Inr out"
  from SubmitWindowedPoSt_Inr [OF this] obtain rewardStats pwrTotal penaltyTotal pledgeDelta where
    "SubmitWindowedPoSt_transaction pol sm ops rt st params rewardStats pwrTotal
       = Inr (postResult out, sectorInfos out, totalPenaltyTarget out, penaltyTotal, pledgeDelta,
              state out)"
    by blast
  from SubmitWindowedPoSt_transaction_Inr(1) [OF this] obtain currDeadline where
    "SubmitWindowedPoSt_verify rt params currDeadline (sectorInfos out) = Inr ()" by blast
  from SubmitWindowedPoSt_verify_Inr [OF this] assms show "sectorInfos out = []" by simp
next
  fix rw pw info currDeadline deadlines deadline pr infos
  assume "Deadline params < WPoStPeriodDeadlines pol \<and>
          ThisEpochReward rt = Inr rw \<and> CurrentTotalPower rt = Inr pw \<and>
          SubmitWindowedPoSt_validate pol ops rt st params = Inr (info, currDeadline) \<and>
          SubmitWindowedPoSt_record pol ops st params info currDeadline
            = Inr (deadlines, deadline, pr, infos) \<and>
          infos \<noteq> []"
  with assms show "SubmitWindowedPoSt pol sm ops rt st params = Inl ErrIllegalArgument"
    by (simp add: SubmitWindowedPoSt_def SubmitWindowedPoSt_transaction_def
        SubmitWindowedPoSt_verify_def andThen_def requestCurrentEpochBlockReward_def
        requestCurrentTotalPower_def)
qed

subsection \<open>SubmitWindowedPoSt: examples\<close>

lemma example_rt_simps:
  "CurrEpoch example_rt = 1000"
  "Caller example_rt = IDAddress 100"
  "CurrentBalance example_rt ms = 10000 - sum_list (map ValueSent ms)"
  "SendCode example_rt ms m = Ok"
  "ThisEpochReward example_rt = Inr example_reward"
  "CurrentTotalPower example_rt = Inr example_power"
  "GetRandomnessFromTickets example_rt tag e entropy = [1, 2, 3]"
  "VerifyPoSt example_rt info = (Proofs info \<noteq> [])"
  "IDFromAddress example_rt (Receiver example_rt) = Inr 1000"
  "MarshalCBOR example_rt a = Inr [0]"
  by (simp_all add: example_rt_def)

lemma stranger_rt_simps:
  "CurrEpoch stranger_rt = 1000"
  "Caller stranger_rt = IDAddress 999"
  "ThisEpochReward stranger_rt = Inr example_reward"
  "CurrentTotalPower stranger_rt = Inr example_power"
  "GetRandomnessFromTickets stranger_rt tag e entropy = [1, 2, 3]"
  by (simp_all add: stranger_rt_def example_rt_def)

lemma example_policy_simps:
  "EpochsInDay example_policy = 2880"
  "WPoStPeriodDeadlines example_policy = 48"
  "FaultMaxAge example_policy = 719"
  "AddressedPartitionsMax example_policy = 200"
  "AddressedSectorsMax example_policy = 10000"
  "RegisteredWindowPoStProof example_policy p = Inr (p + 5)"
  "loadPartitionsSectorsMax example_policy n = 4"
  "QAPowerForSector example_policy ssize s = int ssize"
  by (simp_all add: example_policy_def WPoStPeriodDeadlines_testground_def
      FaultMaxAge_testground_def WPoStProvingPeriod_def WPoStChallengeWindow_def)

lemma example_ops_simps:
  "GetInfo example_ops st = Inr (Info st)"
  "GetUnlockedBalance example_ops st b = example_unlocked st b"
  "PenalizeFundsInPriorityOrder example_ops st e target unlocked =
     Inr (0, min target (max 0 unlocked),
          st\<lparr>FeeDebt := FeeDebt st + (target - min target (max 0 unlocked))\<rparr>)"
  "DeadlineInfo_of example_ops st e = example_deadline"
  "IsOpen example_ops d = True"
  "Last example_ops d = 1004"
  "LoadSectors example_ops st = Inr (AllSectors st)"
  "LoadDeadlines example_ops st = Inr ()"
  "LoadDeadline example_ops dls i = Inr ()"
  "RecordProvenSectors example_ops dl secs ssize quant fe ps = Inr (example_record secs ssize ps, ())"
  "LoadForProof example_ops secs (BitField s) ign = Inr (filter (\<lambda>x. SectorNumber x |\<in>| s) secs)"
  "UpdateDeadline example_ops dls i dl = Inr ()"
  "SaveDeadlines example_ops st dls = Inr st"
  by (simp_all add: example_ops_def example_funds_def Let_def)

lemma example_st_simps:
  "Info example_st = example_info"
  "AllSectors example_st = [example_sector 5, example_sector 7]"
  "EarlyTerminations example_st = BitField {||}"
  "example_unlocked example_st b = b - 6000"
  "FeeDebt example_st = 500"
  by (simp_all add: example_st_def example_unlocked_def)

lemma example_info_simps:
  "Owner example_info = IDAddress 100"
  "Worker example_info = IDAddress 101"
  "ControlAddresses example_info = [IDAddress 102]"
  "SealProofType example_info = 3"
  "SectorSize example_info = 34359738368"
  "WindowPoStPartitionSectors example_info = 2349"
  by (simp_all add: example_info_def)

lemma example_post_simps:
  "Deadline example_post = 8"
  "Partitions example_post = [\<lparr>PartitionIndex = 0, Skipped = BitField {|5|}\<rparr>]"
  "SubmittedProofs example_post = [\<lparr>PoStProof = 8, ProofBytes = [7]\<rparr>]"
  "ChainCommitRand example_post = [1, 2, 3]"
  "Deadline example_post_no_proof = 8"
  "Partitions example_post_no_proof = [\<lparr>PartitionIndex = 0, Skipped = BitField {|5|}\<rparr>]"
  "SubmittedProofs example_post_no_proof = []"
  "ChainCommitRand example_post_no_proof = [1, 2, 3]"
  "Deadline example_post_skip_all = 8"
  "Partitions example_post_skip_all = [\<lparr>PartitionIndex = 0, Skipped = BitField {|5, 7|}\<rparr>]"
  "SubmittedProofs example_post_skip_all = []"
  "ChainCommitRand example_post_skip_all = [1, 2, 3]"
  "Deadline example_post_two_proofs = 8"
  "Partitions example_post_two_proofs = [\<lparr>PartitionIndex = 0, Skipped = BitField {|5|}\<rparr>]"
  "SubmittedProofs example_post_two_proofs
     = [\<lparr>PoStProof = 8, ProofBytes = [7]\<rparr>, \<lparr>PoStProof = 8, ProofBytes = [9]\<rparr>]"
  "ChainCommitRand example_post_two_proofs = [1, 2, 3]"
  by (simp_all add: example_post_def example_post_no_proof_def example_post_two_proofs_def
      example_post_skip_all_def)

lemma example_deadline_simps:
  "Index example_deadline = 8" "Challenge example_deadline = 980"
  by (simp_all add: example_deadline_def)

lemma example_record_simps:
  "example_record [example_sector 5, example_sector 7] 34359738368
     [\<lparr>PartitionIndex = 0, Skipped = BitField {|5|}\<rparr>] = example_post_result"
  "example_record [example_sector 5, example_sector 7] 34359738368
     [\<lparr>PartitionIndex = 0, Skipped = BitField {|5, 7|}\<rparr>] = example_skip_all_result"
  by (simp_all add: example_record_def example_skipped_def example_sector_def Let_def
      NewPowerPairZero_def PowerPair_Sub_def example_post_result_def example_skip_all_result_def)

lemma example_validate:
  "SubmitWindowedPoSt_validate example_policy example_ops example_rt example_st example_post
     = Inr (example_info, example_deadline)"
  "SubmitWindowedPoSt_validate example_policy example_ops example_rt example_st example_post_no_proof
     = Inr (example_info, example_deadline)"
  "SubmitWindowedPoSt_validate example_policy example_ops example_rt example_st example_post_skip_all
     = Inr (example_info, example_deadline)"
  by (simp_all add: SubmitWindowedPoSt_validate_def andThen_def RequireNoErr_def
      ValidateImmediateCallerIs_def getMinerInfo_def Let_def example_policy_simps
      example_ops_simps example_rt_simps example_st_simps example_info_simps example_post_simps
      example_deadline_simps)

lemma example_sector_number: "SectorNumber (example_sector n) = n"
  by (simp add: example_sector_def)

lemma example_record_stage:
  "SubmitWindowedPoSt_record example_policy example_ops example_st example_post example_info
     example_deadline = Inr ((), (), example_post_result, [example_sector 7])"
  "SubmitWindowedPoSt_record example_policy example_ops example_st example_post_no_proof
     example_info example_deadline = Inr ((), (), example_post_result, [example_sector 7])"
  "SubmitWindowedPoSt_record example_policy example_ops example_st example_post_skip_all
     example_info example_deadline = Inr ((), (), example_skip_all_result, [])"
proof -
  have s: "Sectors example_post_result = BitField {|7|}"
    "Sectors example_skip_all_result = BitField {||}"
    by (simp_all add: example_post_result_def example_skip_all_result_def)
  show "SubmitWindowedPoSt_record example_policy example_ops example_st example_post example_info
     example_deadline = Inr ((), (), example_post_result, [example_sector 7])"
    "SubmitWindowedPoSt_record example_policy example_ops example_st example_post_no_proof
     example_info example_deadline = Inr ((), (), example_post_result, [example_sector 7])"
    "SubmitWindowedPoSt_record example_policy example_ops example_st example_post_skip_all
     example_info example_deadline = Inr ((), (), example_skip_all_result, [])"
    by (simp_all add: SubmitWindowedPoSt_record_def RequireNoErr_def Let_def example_ops_simps
        example_st_simps example_info_simps example_post_simps example_record_simps s
        example_sector_number)
qed

lemma example_fees:
  "PledgePenaltyForUndeclaredFault constant_smoothing 2880 1125899906842624 1125899906842624
     34359738368 = 494780232499200"
  "PledgePenaltyForDeclaredFault constant_smoothing 2880 1125899906842624 1125899906842624
     34359738368 = 211759067561984"
  "PledgePenaltyForUndeclaredFault constant_smoothing 2880 1125899906842624 1125899906842624
     68719476736 = 989560464998400"
  "PledgePenaltyForDeclaredFault constant_smoothing 2880 1125899906842624 1125899906842624
     68719476736 = 423518135123968"
  "PledgePenaltyForDeclaredFault constant_smoothing 2880 1125899906842624 1125899906842624 0 = 0"
  by (simp_all add: PledgePenaltyForUndeclaredFault_def PledgePenaltyForDeclaredFault_def
      ExpectedRewardForPower_def constant_smoothing_def UndeclaredFaultProjectionPeriod_def
      DeclaredFaultProjectionPeriod_def DeclaredFaultFactorNum_def DeclaredFaultFactorDenom_def
      big_Rsh_def Precision_def signed_divide_int_def Let_def)

lemma example_transaction:
  "SubmitWindowedPoSt_transaction example_policy constant_smoothing example_ops example_rt
     example_st example_post example_reward example_power
   = Inr (example_post_result, [example_sector 7], 283021164937216, 4000, 0,
          example_st\<lparr>FeeDebt := 283021164933716\<rparr>)"
  "SubmitWindowedPoSt_transaction example_policy constant_smoothing example_ops example_rt
     example_st example_post_skip_all example_reward example_power
   = Inr (example_skip_all_result, [], 566042329874432, 4000, 0,
          example_st\<lparr>FeeDebt := 566042329870932\<rparr>)"
proof -
  have pp: "QA (PenaltyPower example_post_result) = 34359738368"
    "QA (RecoveredPower example_post_result) = 0"
    "QA (PenaltyPower example_skip_all_result) = 68719476736"
    "QA (RecoveredPower example_skip_all_result) = 0"
    by (simp_all add: PenaltyPower_def PowerPair_Add_def example_post_result_def
        example_skip_all_result_def)
  have e: "ThisEpochRewardSmoothed example_reward = 1125899906842624"
    "QualityAdjPowerSmoothed example_power = 1125899906842624"
    by (simp_all add: example_reward_def example_power_def)
  show "SubmitWindowedPoSt_transaction example_policy constant_smoothing example_ops example_rt
     example_st example_post example_reward example_power
   = Inr (example_post_result, [example_sector 7], 283021164937216, 4000, 0,
          example_st\<lparr>FeeDebt := 283021164933716\<rparr>)"
    "SubmitWindowedPoSt_transaction example_policy constant_smoothing example_ops example_rt
     example_st example_post_skip_all example_reward example_power
   = Inr (example_skip_all_result, [], 566042329874432, 4000, 0,
          example_st\<lparr>FeeDebt := 566042329870932\<rparr>)"
    unfolding SubmitWindowedPoSt_transaction_def
    by (simp_all add: example_validate example_record_stage andThen_def RequireNoErr_def Let_def SubmitWindowedPoSt_verify_def
        verifyWindowedPost_def pp e example_fees example_policy_simps example_ops_simps
        example_rt_simps example_st_simps example_post_simps)
qed

lemma SubmitWindowedPoSt_example:
  "SubmitWindowedPoSt example_policy constant_smoothing example_ops example_rt example_st example_post
     = Inr example_post_outcome"
  "SubmitWindowedPoSt example_policy constant_smoothing example_ops example_rt example_st
     example_post_skip_all = Inr example_skip_all_outcome"
  unfolding SubmitWindowedPoSt_def
  by (simp_all add: example_policy_simps example_rt_simps example_post_simps andThen_def
      example_transaction requestCurrentEpochBlockReward_def requestCurrentTotalPower_def
      requestUpdatePower_def burnFunds_def notifyPledgeChanged_def SendRequireSuccess_def
      PowerPair_IsZero_def example_post_result_def example_post_outcome_def
      example_skip_all_result_def example_skip_all_outcome_def)


theorem SubmitWindowedPoSt_penalty_target_witness:
  "SubmitWindowedPoSt example_policy constant_smoothing example_ops example_rt example_st example_post
     = Inr example_post_outcome \<and>
   totalPenaltyTarget example_post_outcome = 283021164937216 \<and>
   (\<exists>rewardStats pwrTotal.
      ThisEpochReward example_rt = Inr rewardStats \<and> CurrentTotalPower example_rt = Inr pwrTotal \<and>
      totalPenaltyTarget example_post_outcome =
        PledgePenaltyForUndeclaredFault constant_smoothing (EpochsInDay example_policy)
          (ThisEpochRewardSmoothed rewardStats) (QualityAdjPowerSmoothed pwrTotal)
          (QA (NewFaultyPower (postResult example_post_outcome))
           + QA (RetractedRecoveryPower (postResult example_post_outcome)))
        - PledgePenaltyForDeclaredFault constant_smoothing (EpochsInDay example_policy)
            (ThisEpochRewardSmoothed rewardStats) (QualityAdjPowerSmoothed pwrTotal)
            (QA (NewFaultyPower (postResult example_post_outcome))
             + QA (RetractedRecoveryPower (postResult example_post_outcome)))
        + PledgePenaltyForDeclaredFault constant_smoothing (EpochsInDay example_policy)
            (ThisEpochRewardSmoothed rewardStats) (QualityAdjPowerSmoothed pwrTotal)
            (QA (RecoveredPower (postResult example_post_outcome))) \<and>
      (\<exists>vestingPenaltyTotal balancePenaltyTotal st1.
         PenalizeFundsInPriorityOrder example_ops example_st (CurrEpoch example_rt)
           (totalPenaltyTarget example_post_outcome)
           (GetUnlockedBalance example_ops example_st (CurrentBalance example_rt []))
           = Inr (vestingPenaltyTotal, balancePenaltyTotal, st1)))"
proof -
  have h: "SubmitWindowedPoSt example_policy constant_smoothing example_ops example_rt example_st
             example_post = Inr example_post_outcome"
    by (rule SubmitWindowedPoSt_example(1))
  have v: "totalPenaltyTarget example_post_outcome = 283021164937216"
    by (simp add: example_post_outcome_def)
  show ?thesis
    using h v SubmitWindowedPoSt_penalty_target [OF h] by blast
qed

lemma example_refused:
  "PoSt_refused example_policy example_ops example_rt example_st example_post_two_proofs"
  "PoSt_refused_before_open example_policy example_ops example_st example_post_two_proofs"
  "PoSt_refused example_policy example_ops stranger_rt example_st example_post_two_proofs"
  by (simp_all add: PoSt_refused_def PoSt_refused_before_open_def example_post_simps Let_def)

theorem SubmitWindowedPoSt_refused_witness:
  "PoSt_refused example_policy example_ops example_rt example_st example_post_two_proofs \<and>
   SubmitWindowedPoSt example_policy constant_smoothing example_ops example_rt example_st
     example_post_two_proofs = Inl ErrIllegalArgument \<and>
   persisted example_st
     (SubmitWindowedPoSt example_policy constant_smoothing example_ops example_rt example_st
        example_post_two_proofs) = example_st"
proof -
  have h: "PoSt_refused example_policy example_ops example_rt example_st example_post_two_proofs"
    by (rule example_refused(1))
  have p: "\<exists>rw pw info t.
             ThisEpochReward example_rt = Inr rw \<and> CurrentTotalPower example_rt = Inr pw \<and>
             GetInfo example_ops example_st = Inr info \<and>
             Caller example_rt \<in> set (ControlAddresses info @ [Owner info, Worker info]) \<and>
             RegisteredWindowPoStProof example_policy (SealProofType info) = Inr t \<and>
             (PoSt_refused_before_open example_policy example_ops example_st example_post_two_proofs
              \<or> IsOpen example_ops (DeadlineInfo_of example_ops example_st (CurrEpoch example_rt)))"
    by (simp add: example_rt_simps example_ops_simps example_st_simps example_info_simps
        example_policy_simps)
  show ?thesis
    using h p SubmitWindowedPoSt_refused [OF h, of constant_smoothing] by blast
qed

text \<open>
  C7 as stated fails: two proofs from a caller that is none of the miner's addresses
  abort with \<^verbatim>\<open>ErrForbidden\<close>, not \<^verbatim>\<open>ErrIllegalArgument\<close>.
\<close>

theorem SubmitWindowedPoSt_refused_counterexample:
  "PoSt_refused example_policy example_ops stranger_rt example_st example_post_two_proofs \<and>
   SubmitWindowedPoSt example_policy constant_smoothing example_ops stranger_rt example_st
     example_post_two_proofs = Inl ErrForbidden"
proof -
  have "SubmitWindowedPoSt_validate example_policy example_ops stranger_rt example_st
          example_post_two_proofs = Inl ErrForbidden"
    by (simp add: SubmitWindowedPoSt_validate_def andThen_def ValidateImmediateCallerIs_def
        getMinerInfo_def RequireNoErr_def example_ops_simps example_st_simps example_info_simps
        stranger_rt_simps)
  then have "SubmitWindowedPoSt example_policy constant_smoothing example_ops stranger_rt example_st
     example_post_two_proofs = Inl ErrForbidden"
    by (simp add: SubmitWindowedPoSt_def SubmitWindowedPoSt_transaction_def andThen_def
        requestCurrentEpochBlockReward_def requestCurrentTotalPower_def stranger_rt_simps
        example_policy_simps example_post_simps)
  with example_refused(3) show ?thesis by simp
qed

theorem SubmitWindowedPoSt_no_proof_witness:
  "SubmittedProofs example_post_skip_all = [] \<and>
   SubmitWindowedPoSt example_policy constant_smoothing example_ops example_rt example_st
     example_post_skip_all = Inr example_skip_all_outcome \<and>
   sectorInfos example_skip_all_outcome = [] \<and>
   SubmittedProofs example_post_no_proof = [] \<and>
   SubmitWindowedPoSt_record example_policy example_ops example_st example_post_no_proof
     example_info example_deadline = Inr ((), (), example_post_result, [example_sector 7]) \<and>
   SubmitWindowedPoSt example_policy constant_smoothing example_ops example_rt example_st
     example_post_no_proof = Inl ErrIllegalArgument"
proof -
  have h1: "SubmittedProofs example_post_skip_all = []"
    and h2: "SubmittedProofs example_post_no_proof = []"
    by (simp_all add: example_post_simps)
  have p: "Deadline example_post_no_proof < WPoStPeriodDeadlines example_policy \<and>
           ThisEpochReward example_rt = Inr example_reward \<and>
           CurrentTotalPower example_rt = Inr example_power \<and>
           SubmitWindowedPoSt_validate example_policy example_ops example_rt example_st
             example_post_no_proof = Inr (example_info, example_deadline) \<and>
           SubmitWindowedPoSt_record example_policy example_ops example_st example_post_no_proof
             example_info example_deadline = Inr ((), (), example_post_result, [example_sector 7]) \<and>
           [example_sector 7] \<noteq> []"
    by (simp add: example_post_simps example_policy_simps example_rt_simps example_validate
        example_record_stage)
  show ?thesis
    using h1 h2 p SubmitWindowedPoSt_example(2)
      SubmitWindowedPoSt_no_proof [OF h1, of example_policy constant_smoothing example_ops
        example_rt example_st]
      SubmitWindowedPoSt_no_proof [OF h2, of example_policy constant_smoothing example_ops
        example_rt example_st]
    by blast
qed

subsection \<open>handleProvingDeadline: the penalty\<close>

lemma handleProvingDeadline_transaction_Inr:
  assumes "handleProvingDeadline_transaction pol sm ops rt st epochReward pwrTotal
             = Inr (had, powerDeltaTotal, penaltyTotal, pledgeDeltaTotal, result, target, st')"
  shows "target =
           PledgePenaltyForUndeclaredFault sm (EpochsInDay pol) (ThisEpochRewardSmoothed epochReward)
             (QualityAdjPowerSmoothed pwrTotal) (QA (DetectedFaultyPower result))
           + PledgePenaltyForDeclaredFault sm (EpochsInDay pol) (ThisEpochRewardSmoothed epochReward)
               (QualityAdjPowerSmoothed pwrTotal)
               (QA (TotalFaultyPower result) - QA (DetectedFaultyPower result))"
    and "\<exists>newlyVested st1 depositToBurn st2 st3.
           UnlockVestedFunds ops st (CurrEpoch rt) = Inr (newlyVested, st1) \<and>
           ExpirePreCommits ops st1 (CurrEpoch rt) = Inr (depositToBurn, st2) \<and>
           havePendingEarlyTerminations st2 = Inr had \<and>
           AdvanceDeadline ops st2 (CurrEpoch rt) = Inr (result, st3) \<and>
           (if target \<noteq> 0
            then \<exists>penaltyFromVesting penaltyFromBalance.
                   PenalizeFundsInPriorityOrder ops st3 (CurrEpoch rt) target
                     (GetUnlockedBalance ops st3 (CurrentBalance rt []))
                     = Inr (penaltyFromVesting, penaltyFromBalance, st')
            else st' = st3)"
  using assms unfolding handleProvingDeadline_transaction_def
  by (auto simp: Let_def elim!: andThen_InrE RequireNoErr_InrE split: if_splits)

lemma handleProvingDeadline_Inr:
  assumes "handleProvingDeadline pol sm ops rt st = Inr out"
  shows "\<exists>epochReward pwrTotal powerDeltaTotal penaltyTotal pledgeDeltaTotal st1.
           ThisEpochReward rt = Inr epochReward \<and> CurrentTotalPower rt = Inr pwrTotal \<and>
           handleProvingDeadline_transaction pol sm ops rt st epochReward pwrTotal
             = Inr (hadEarlyTerminations out, powerDeltaTotal, penaltyTotal, pledgeDeltaTotal,
                    advanceResult out, penaltyTarget out, st1)"
  using assms unfolding handleProvingDeadline_def
  by (auto simp: requestCurrentEpochBlockReward_def requestCurrentTotalPower_def Let_def
      elim!: andThen_InrE split: if_splits)

text \<open>
  C2. When \<^verbatim>\<open>handleProvingDeadline\<close>, the cron callback at the end of a deadline, returns,
  its penalty target is the sum of the undeclared-fault fee on the newly detected faulty
  QA power and of the declared-fault fee on the total faulty QA power minus the newly
  detected one, both powers being those \<^verbatim>\<open>AdvanceDeadline\<close> returned; and a target that
  is not zero is what \<^verbatim>\<open>PenalizeFundsInPriorityOrder\<close> was applied to.
\<close>

theorem handleProvingDeadline_penalty_target:
  assumes "handleProvingDeadline pol sm ops rt st = Inr out"
  shows "\<exists>epochReward pwrTotal st2 st3.
           ThisEpochReward rt = Inr epochReward \<and> CurrentTotalPower rt = Inr pwrTotal \<and>
           AdvanceDeadline ops st2 (CurrEpoch rt) = Inr (advanceResult out, st3) \<and>
           penaltyTarget out =
             PledgePenaltyForUndeclaredFault sm (EpochsInDay pol)
               (ThisEpochRewardSmoothed epochReward) (QualityAdjPowerSmoothed pwrTotal)
               (QA (DetectedFaultyPower (advanceResult out)))
             + PledgePenaltyForDeclaredFault sm (EpochsInDay pol)
                 (ThisEpochRewardSmoothed epochReward) (QualityAdjPowerSmoothed pwrTotal)
                 (QA (TotalFaultyPower (advanceResult out))
                  - QA (DetectedFaultyPower (advanceResult out))) \<and>
           (penaltyTarget out \<noteq> 0 \<longrightarrow>
              (\<exists>penaltyFromVesting penaltyFromBalance st4.
                 PenalizeFundsInPriorityOrder ops st3 (CurrEpoch rt) (penaltyTarget out)
                   (GetUnlockedBalance ops st3 (CurrentBalance rt []))
                   = Inr (penaltyFromVesting, penaltyFromBalance, st4)))"
proof -
  from handleProvingDeadline_Inr [OF assms] obtain epochReward pwrTotal powerDeltaTotal penaltyTotal
    pledgeDeltaTotal st1 where
    q: "ThisEpochReward rt = Inr epochReward" "CurrentTotalPower rt = Inr pwrTotal"
    and t: "handleProvingDeadline_transaction pol sm ops rt st epochReward pwrTotal
             = Inr (hadEarlyTerminations out, powerDeltaTotal, penaltyTotal, pledgeDeltaTotal,
                    advanceResult out, penaltyTarget out, st1)"
    by blast
  from handleProvingDeadline_transaction_Inr(2) [OF t] obtain st2 st3 where
    a: "AdvanceDeadline ops st2 (CurrEpoch rt) = Inr (advanceResult out, st3)"
    and p: "if penaltyTarget out \<noteq> 0
            then \<exists>penaltyFromVesting penaltyFromBalance.
                   PenalizeFundsInPriorityOrder ops st3 (CurrEpoch rt) (penaltyTarget out)
                     (GetUnlockedBalance ops st3 (CurrentBalance rt []))
                     = Inr (penaltyFromVesting, penaltyFromBalance, st1)
            else st1 = st3"
    by blast
  from p have "penaltyTarget out \<noteq> 0 \<longrightarrow>
              (\<exists>penaltyFromVesting penaltyFromBalance st4.
                 PenalizeFundsInPriorityOrder ops st3 (CurrEpoch rt) (penaltyTarget out)
                   (GetUnlockedBalance ops st3 (CurrentBalance rt []))
                   = Inr (penaltyFromVesting, penaltyFromBalance, st4))"
    by (auto split: if_splits)
  with q a handleProvingDeadline_transaction_Inr(1) [OF t] show ?thesis by blast
qed

subsection \<open>Messages that enroll the early-termination cron\<close>

lemma not_early_termination_cron [simp]:
  "\<not> is_early_termination_cron \<lparr>To = a, MethodParams = MethodSend, ValueSent = v\<rparr>"
  "\<not> is_early_termination_cron \<lparr>To = a, MethodParams = UpdatePledgeTotal d, ValueSent = v\<rparr>"
  "\<not> is_early_termination_cron \<lparr>To = a, MethodParams = UpdateClaimedPower r q, ValueSent = v\<rparr>"
  "\<not> is_early_termination_cron \<lparr>To = a, MethodParams = OnMinerSectorsTerminate e ds, ValueSent = v\<rparr>"
  "\<not> is_early_termination_cron
       \<lparr>To = a, MethodParams = EnrollCronEvent e \<lparr>EventType = CronEventProvingDeadline\<rparr>,
        ValueSent = v\<rparr>"
  "is_early_termination_cron (early_termination_cron rt)"
  by (simp_all add: is_early_termination_cron_def early_termination_cron_def)









subsection \<open>The cron event for early terminations\<close>






subsection \<open>Early terminations and the end of a deadline: examples\<close>

lemma example_miner_ops_simps:
  "GetInfo example_miner_ops st = Inr (Info st)"
  "UnlockVestedFunds example_miner_ops st e = Inr (0, st)"
  "GetUnlockedBalance example_miner_ops st b = example_unlocked st b"
  "PenalizeFundsInPriorityOrder example_miner_ops st e target unlocked =
     Inr (0, min target (max 0 unlocked),
          st\<lparr>FeeDebt := FeeDebt st + (target - min target (max 0 unlocked))\<rparr>)"
  "DeadlineInfo_of example_miner_ops st e = example_deadline"
  "Last example_miner_ops dli = 1004"
  "LoadSectors example_miner_ops st = Inr (AllSectors st)"
  "LoadDeadlines example_miner_ops st = Inr ()"
  "LoadDeadline example_miner_ops dls i = Inr ()"
  "UpdateDeadline example_miner_ops dls i dl = Inr ()"
  "SaveDeadlines example_miner_ops st dls = Inr st"
  "ExpirePreCommits example_miner_ops st e = Inr (0, st)"
  "AdvanceDeadline example_miner_ops st e =
     Inr (example_advance, st\<lparr>EarlyTerminations := bf_Set (bf_Set (EarlyTerminations st) 3) 4\<rparr>)"
  "TerminationResult_IsEmpty example_miner_ops r = (r = [])"
  "TerminationResult_ForEach example_miner_ops r = Inr r"
  "Sectors_Load example_miner_ops secs (BitField s) = Inr (filter (\<lambda>x. SectorNumber x |\<in>| s) secs)"
  "AddInitialPledgeRequirement example_miner_ops st d =
     st\<lparr>InitialPledgeRequirement := InitialPledgeRequirement st + d\<rparr>"
  "DeadlineSectorMap_make example_miner_ops = []"
  "DeadlineSectorMap_Add example_miner_ops m dlIdx partIdx bf = Inr (m @ [(dlIdx, bf)])"
  "DeadlineSectorMap_Check example_miner_ops m maxP maxS = (if length m \<le> maxP then Inr () else Inl None)"
  "DeadlineSectorMap_ForEach example_miner_ops m = Inr m"
  "Deadline_TerminateSectors example_miner_ops dl secs e (BitField s) ssize quant =
     Inr (\<lparr>Raw = int ssize * int (fcard s), QA = int ssize * int (fcard s)\<rparr>, ())"
  by (simp_all add: example_miner_ops_def example_ops_def example_funds_def Let_def)

lemma example_pop_queued:
  assumes "EarlyTerminations st = BitField {|4, 3|}"
  shows "PopEarlyTerminations example_miner_ops st maxP maxS
     = Inr ([(900, BitField {|5|})], True, st\<lparr>EarlyTerminations := BitField {|4|}\<rparr>)"
proof -
  have "{|4::nat, 3|} |-| {|3|} = {|4|}" by auto
  then show ?thesis using assms by (simp add: example_miner_ops_def example_pop_def)
qed

lemma example_termination_penalty:
  "terminationPenalty example_policy constant_smoothing 34359738368 900 1125899906842624
     1125899906842624 [example_sector 5] = Some 494780232499200"
  by (simp add: terminationPenalty_def PledgePenaltyForTermination_def example_fees
      example_policy_simps example_sector_def Let_def big_Div_def minEpoch_def
      TerminationLifetimeCap_def)

lemma example_estimates:
  "ThisEpochRewardSmoothed example_reward = 1125899906842624"
  "QualityAdjPowerSmoothed example_power = 1125899906842624"
  by (simp_all add: example_reward_def example_power_def)

lemma queued_st_simps:
  "example_unlocked (example_st\<lparr>EarlyTerminations := b\<rparr>) x = x - 6000"
  "example_unlocked (example_st\<lparr>EarlyTerminations := b, FeeDebt := f\<rparr>) x = x - 6000"
  "FeeDebt (example_st\<lparr>EarlyTerminations := b\<rparr>) = 500"
  "InitialPledgeRequirement (example_st\<lparr>EarlyTerminations := b\<rparr>) = 3000"
  "InitialPledgeRequirement (example_st\<lparr>EarlyTerminations := b, FeeDebt := f\<rparr>) = 3000"
  "Info (example_st\<lparr>EarlyTerminations := b\<rparr>) = example_info"
  "AllSectors (example_st\<lparr>EarlyTerminations := b\<rparr>) = [example_sector 5, example_sector 7]"
  "Info (example_st\<lparr>EarlyTerminations := b, FeeDebt := f\<rparr>) = example_info"
  "AllSectors (example_st\<lparr>EarlyTerminations := b, FeeDebt := f\<rparr>)
     = [example_sector 5, example_sector 7]"
  by (simp_all add: example_st_def example_unlocked_def)

lemma example_unlocked_frame:
  "example_unlocked (st\<lparr>FeeDebt := f\<rparr>) x = example_unlocked st x"
  "example_unlocked (st\<lparr>EarlyTerminations := b\<rparr>) x = example_unlocked st x"
  by (simp_all add: example_unlocked_def)

lemma example_each:
  "processEarlyTerminations_each example_policy constant_smoothing example_miner_ops example_info
     example_reward example_power [example_sector 5, example_sector 7] [(900, BitField {|5|})]
     (0, [], 0) = Inr (1500, [(900, [])], 494780232499200)"
proof -
  have d: "DealIDs (example_sector n) = []" "InitialPledge (example_sector n) = 1500" for n
    by (simp_all add: example_sector_def)
  show ?thesis
    by (simp add: example_miner_ops_simps example_sector_number d example_info_simps
        example_estimates example_termination_penalty)
qed





lemma example_cron_transaction:
  "handleProvingDeadline_transaction example_policy constant_smoothing example_miner_ops
     example_rt example_st example_reward example_power
   = Inr (False, \<lparr>Raw = - 34359738368, QA = - 34359738368\<rparr>, 4000, 0, example_advance,
          706539300061184,
          example_st\<lparr>EarlyTerminations := BitField {|4, 3|}, FeeDebt := 706539300057684\<rparr>)"
proof -
  have a: "QA (DetectedFaultyPower example_advance) = 34359738368"
    "QA (TotalFaultyPower example_advance) = 68719476736"
    "PledgeDelta example_advance = 0"
    "AdvancePowerDelta example_advance = \<lparr>Raw = - 34359738368, QA = - 34359738368\<rparr>"
    by (simp_all add: example_advance_def)
  show ?thesis
    unfolding handleProvingDeadline_transaction_def
    by (simp add: RequireNoErr_def andThen_def Let_def example_miner_ops_simps example_rt_simps
        example_policy_simps example_st_simps queued_st_simps example_estimates example_fees a
        havePendingEarlyTerminations_def bf_IsEmpty_def bf_Set_def NewPowerPairZero_def
        PowerPair_Add_def)
qed

lemma example_process_cron:
  "processEarlyTerminations example_policy constant_smoothing example_miner_ops example_rt
     (example_st\<lparr>EarlyTerminations := BitField {|4, 3|}, FeeDebt := 706539300057684\<rparr>)
     [\<lparr>To = StoragePowerActorAddr,
       MethodParams = UpdateClaimedPower (- 34359738368) (- 34359738368), ValueSent = 0\<rparr>,
      \<lparr>To = BurntFundsActorAddr, MethodParams = MethodSend, ValueSent = 4000\<rparr>,
      \<lparr>To = StoragePowerActorAddr,
       MethodParams = EnrollCronEvent 1004 \<lparr>EventType = CronEventProvingDeadline\<rparr>,
       ValueSent = 0\<rparr>]
   = Inr (True,
          example_st\<lparr>EarlyTerminations := BitField {|4|}, InitialPledgeRequirement := 1500,
                      FeeDebt := 1201319532556884\<rparr>,
          [\<lparr>To = StoragePowerActorAddr,
            MethodParams = UpdateClaimedPower (- 34359738368) (- 34359738368), ValueSent = 0\<rparr>,
           \<lparr>To = BurntFundsActorAddr, MethodParams = MethodSend, ValueSent = 4000\<rparr>,
           \<lparr>To = StoragePowerActorAddr,
            MethodParams = EnrollCronEvent 1004 \<lparr>EventType = CronEventProvingDeadline\<rparr>,
            ValueSent = 0\<rparr>,
           \<lparr>To = StoragePowerActorAddr, MethodParams = UpdatePledgeTotal (- 1500),
            ValueSent = 0\<rparr>])"
proof -
  have r: "InitialPledgeRequirement example_st = 3000"
    by (simp add: example_st_def)
  show ?thesis
    unfolding processEarlyTerminations_def processEarlyTerminations_transaction_def
    by (simp add: r example_pop_queued RequireNoErr_def andThen_def getMinerInfo_def Let_def
        example_miner_ops_simps example_st_simps example_unlocked_frame example_each example_rt_simps
        example_policy_simps requestCurrentEpochBlockReward_def requestCurrentTotalPower_def
        burnFunds_def notifyPledgeChanged_def SendRequireSuccess_def requestTerminateDeals.simps
        del: processEarlyTerminations_each.simps)
qed

lemma handleProvingDeadline_example:
  "handleProvingDeadline example_policy constant_smoothing example_miner_ops example_rt example_st
     = Inr example_cron_outcome"
  unfolding handleProvingDeadline_def
  by (simp add: example_cron_transaction example_process_cron andThen_def Let_def
      requestCurrentEpochBlockReward_def requestCurrentTotalPower_def example_rt_simps
      example_miner_ops_simps requestUpdatePower_def burnFunds_def notifyPledgeChanged_def
      enrollCronEvent_def scheduleEarlyTerminationWork_def SendRequireSuccess_def
      PowerPair_IsZero_def havePendingEarlyTerminations_def bf_IsEmpty_def RequireNoErr_def
      example_cron_outcome_def)

theorem handleProvingDeadline_penalty_target_witness:
  "handleProvingDeadline example_policy constant_smoothing example_miner_ops example_rt example_st
     = Inr example_cron_outcome \<and>
   penaltyTarget example_cron_outcome = 706539300061184 \<and>
   (\<exists>epochReward pwrTotal st2 st3.
      ThisEpochReward example_rt = Inr epochReward \<and>
      CurrentTotalPower example_rt = Inr pwrTotal \<and>
      AdvanceDeadline example_miner_ops st2 (CurrEpoch example_rt)
        = Inr (advanceResult example_cron_outcome, st3) \<and>
      penaltyTarget example_cron_outcome =
        PledgePenaltyForUndeclaredFault constant_smoothing (EpochsInDay example_policy)
          (ThisEpochRewardSmoothed epochReward) (QualityAdjPowerSmoothed pwrTotal)
          (QA (DetectedFaultyPower (advanceResult example_cron_outcome)))
        + PledgePenaltyForDeclaredFault constant_smoothing (EpochsInDay example_policy)
            (ThisEpochRewardSmoothed epochReward) (QualityAdjPowerSmoothed pwrTotal)
            (QA (TotalFaultyPower (advanceResult example_cron_outcome))
             - QA (DetectedFaultyPower (advanceResult example_cron_outcome))) \<and>
      (\<exists>penaltyFromVesting penaltyFromBalance st4.
         PenalizeFundsInPriorityOrder example_miner_ops st3 (CurrEpoch example_rt)
           (penaltyTarget example_cron_outcome)
           (GetUnlockedBalance example_miner_ops st3 (CurrentBalance example_rt []))
           = Inr (penaltyFromVesting, penaltyFromBalance, st4)))"
proof -
  have h: "handleProvingDeadline example_policy constant_smoothing example_miner_ops example_rt
             example_st = Inr example_cron_outcome"
    by (rule handleProvingDeadline_example)
  have v: "penaltyTarget example_cron_outcome = 706539300061184"
    by (simp add: example_cron_outcome_def)
  have nz: "penaltyTarget example_cron_outcome \<noteq> 0"
    by (simp add: example_cron_outcome_def)
  show ?thesis
    using h v nz handleProvingDeadline_penalty_target [OF h] by blast
qed


subsection \<open>PreCommitSector\<close>





subsection \<open>PreCommitSector: examples\<close>












end
